theory Spec2Isabelle
  imports Complex_Main "HOL-Library.Word" "HOL-Library.Sublist"
begin

section \<open>Rigol\_view: download channel 1 of an oscilloscope into channel1.wav\<close>

text \<open>
  The program is one Python script, \<^verbatim>\<open>Rigol_view/Rigol_view.py\<close>. It has no functions
  of its own: every line is a call on an external collaborator (the instrument-control
  provider \<^verbatim>\<open>pyvisa\<close>, the \<^verbatim>\<open>wave\<close> writer, \<^verbatim>\<open>print\<close>, \<^verbatim>\<open>sys.exit\<close>) inside two
  \<^verbatim>\<open>try\<close> statements. The embedding therefore models
  \<^item> what the collaborators answer as an environment (\<open>env\<close>): for every call the script
    makes, whether it returns (and what) or raises (and which class of exception);
  \<^item> what the script does as the ordered list of calls it issues (\<open>trace\<close>), the state of
    the output file, and the exit status of the process.

  Scope of the model. \<^verbatim>\<open>print\<close> and \<^verbatim>\<open>rm.close()\<close> are taken to return normally; exceptions
  outside \<^verbatim>\<open>Exception\<close> other than the script's own \<^verbatim>\<open>SystemExit\<close> (a keyboard interrupt)
  are not modelled. The text of a printed line is kept as a structured \<open>message\<close> (which
  line, with which values), not as formatted characters.
\<close>

subsection \<open>Values\<close>

type_synonym byte = "8 word"

text \<open>
  A Python \<^verbatim>\<open>float\<close>: a finite value (every finite double is a real number), an infinity
  (\<open>True\<close> for the negative one) or a NaN. \<^verbatim>\<open>float("inf")\<close> and \<^verbatim>\<open>float("nan")\<close> parse.
\<close>

datatype pyfloat = Fin real | Infinity bool | NaN

text \<open>
  The exception classes the script's handlers tell apart: \<^verbatim>\<open>pyvisa.errors.LibraryError\<close>
  (line 17), \<^verbatim>\<open>pyvisa.errors.VisaIOError\<close> (line 78), and any other subclass of
  \<^verbatim>\<open>Exception\<close> (line 80): \<^verbatim>\<open>ValueError\<close>, \<^verbatim>\<open>OverflowError\<close>, \<^verbatim>\<open>OSError\<close>, \<^verbatim>\<open>wave.Error\<close>.
\<close>

datatype exn = LibraryError | VisaIOError | OtherException

text \<open>The parameters handed to \<^verbatim>\<open>setparams\<close> (lines 64 to 69), and a written container.\<close>

record wav_params =
  nchannels :: int
  sampwidth :: int
  framerate :: int
  nframes :: int
  comptype :: string
  compname :: string

record wav_container =
  header :: wav_params
  frames :: "byte list"

text \<open>
  The file \<^verbatim>\<open>channel1.wav\<close> as this run leaves it: not touched, created by \<^verbatim>\<open>wave.open\<close>
  but not completed, or a complete container.
\<close>

datatype file_state = Absent | Incomplete | Complete wav_container

subsection \<open>Calls and printed lines\<close>

datatype message =
    InitError                         \<comment> \<open>line 18: Error initializing PyVISA\<close>
  | AvailableResources "string list"  \<comment> \<open>line 24\<close>
  | BadInstrumentList "string list"   \<comment> \<open>line 29\<close>
  | Connecting string                 \<comment> \<open>line 34\<close>
  | SampleRate pyfloat                \<comment> \<open>line 41\<close>
  | DataSize nat                      \<comment> \<open>line 49\<close>
  | DataSaved string                  \<comment> \<open>line 73\<close>
  | VisaIOErrorMsg                    \<comment> \<open>line 79\<close>
  | ErrorOccurred                     \<comment> \<open>line 81\<close>

datatype event =
    ResourceManager                            \<comment> \<open>\<^verbatim>\<open>pyvisa.ResourceManager()\<close>\<close>
  | Print message
  | ListResources                              \<comment> \<open>\<^verbatim>\<open>rm.list_resources()\<close>\<close>
  | RmClose                                    \<comment> \<open>\<^verbatim>\<open>rm.close()\<close>\<close>
  | OpenResource string int int                \<comment> \<open>name, timeout, chunk\_size\<close>
  | Query string                               \<comment> \<open>\<^verbatim>\<open>scope.query(cmd)\<close>\<close>
  | Write string                               \<comment> \<open>\<^verbatim>\<open>scope.write(cmd)\<close>\<close>
  | QueryBinaryValues string string string bool
      \<comment> \<open>command, datatype, header\_fmt, is\_big\_endian\<close>
  | ScopeClose                                 \<comment> \<open>\<^verbatim>\<open>scope.close()\<close>\<close>
  | WaveOpen string string                     \<comment> \<open>file name, mode\<close>
  | SetParams wav_params
  | WriteFrames "byte list"
  | WaveClose                                  \<comment> \<open>leaving the \<^verbatim>\<open>with\<close> block\<close>

subsection \<open>The environment\<close>

text \<open>
  One field per external call of the script; \<open>Inl x\<close> means the call raises \<open>x\<close>. The
  binary-block read is made with datatype \<^verbatim>\<open>'B'\<close> (unsigned char), so what it returns is
  a list of bytes. The \<^verbatim>\<open>wave\<close> calls raise exceptions of the third class only, so their
  fields are flags: \<open>True\<close> means the call raises.
\<close>

record env =
  rm_new :: "exn + unit"
  rm_list_resources :: "exn + string list"
  rm_open_resource :: "string \<Rightarrow> exn + unit"
  scope_query :: "string \<Rightarrow> exn + string"
  scope_write :: "string \<Rightarrow> exn + unit"
  scope_query_binary_values :: "string \<Rightarrow> exn + byte list"
  scope_close :: "exn + unit"
  wave_open_fails :: bool
  wave_setparams_fails :: "wav_params \<Rightarrow> bool"
  wave_writeframes_fails :: "byte list \<Rightarrow> bool"

subsection \<open>State and control flow\<close>

text \<open>
  \<open>wave_obj\<close> is the open \<^verbatim>\<open>Wave_write\<close> object: the parameters set so far. A statement
  returns, raises, or leaves through \<^verbatim>\<open>sys.exit\<close> (\<^verbatim>\<open>SystemExit\<close> is not an \<^verbatim>\<open>Exception\<close>,
  so no handler of the script catches it).
\<close>

record world =
  trace :: "event list"
  channel1_wav :: file_state
  wave_obj :: "wav_params option"

datatype 'a result = Return 'a | Raise exn | SysExit int

type_synonym 'a prog = "world \<Rightarrow> 'a result \<times> world"

definition world0 :: world where
  "world0 = \<lparr>trace = [], channel1_wav = Absent, wave_obj = None\<rparr>"

definition emit :: "event \<Rightarrow> world \<Rightarrow> world" where
  "emit ev w = w\<lparr>trace := trace w @ [ev]\<rparr>"

definition and_then :: "'a prog \<Rightarrow> ('a \<Rightarrow> 'b prog) \<Rightarrow> 'b prog" where
  "and_then m f w =
     (case m w of
        (Return v, w') \<Rightarrow> f v w'
      | (Raise x, w') \<Rightarrow> (Raise x, w')
      | (SysExit n, w') \<Rightarrow> (SysExit n, w'))"

definition call :: "event \<Rightarrow> exn + 'a \<Rightarrow> 'a prog" where
  "call ev outcome w =
     (case outcome of
        Inl x \<Rightarrow> (Raise x, emit ev w)
      | Inr v \<Rightarrow> (Return v, emit ev w))"

definition print :: "message \<Rightarrow> unit prog" where
  "print m w = (Return (), emit (Print m) w)"

definition rm_close :: "unit prog" where
  "rm_close w = (Return (), emit RmClose w)"

definition sys_exit :: "int \<Rightarrow> 'a prog" where
  "sys_exit n w = (SysExit n, w)"

definition return_val :: "'a \<Rightarrow> 'a prog" where
  "return_val v w = (Return v, w)"

subsection \<open>Builtins\<close>

text \<open>\<^verbatim>\<open>sub in s\<close> on strings: \<open>sub\<close> occurs in \<open>s\<close> as a contiguous run.\<close>

fun py_in :: "string \<Rightarrow> string \<Rightarrow> bool" where
  "py_in sub [] = (sub = [])"
| "py_in sub (c # cs) = (prefix sub (c # cs) \<or> py_in sub cs)"

text \<open>
  \<^verbatim>\<open>float(s)\<close> is a parameter of the run (\<open>None\<close>: the string is not numeric and
  \<^verbatim>\<open>ValueError\<close> is raised): rounding a decimal to the nearest double is not modelled.
\<close>

definition py_float :: "(string \<Rightarrow> pyfloat option) \<Rightarrow> string \<Rightarrow> pyfloat prog" where
  "py_float float s w =
     (case float s of
        None \<Rightarrow> (Raise OtherException, w)
      | Some x \<Rightarrow> (Return x, w))"

text \<open>
  \<^verbatim>\<open>int(x)\<close> on a float truncates towards zero; it raises \<^verbatim>\<open>OverflowError\<close> on an infinity
  and \<^verbatim>\<open>ValueError\<close> on a NaN.
\<close>

definition py_trunc :: "real \<Rightarrow> int" where
  "py_trunc r = (if 0 \<le> r then \<lfloor>r\<rfloor> else \<lceil>r\<rceil>)"

definition py_int :: "pyfloat \<Rightarrow> int prog" where
  "py_int x w =
     (case x of
        Fin r \<Rightarrow> (Return (py_trunc r), w)
      | Infinity _ \<Rightarrow> (Raise OtherException, w)
      | NaN \<Rightarrow> (Raise OtherException, w))"

subsection \<open>The wave writer, as far as the script uses it\<close>

text \<open>
  \<^verbatim>\<open>with wave.open(name, "wb") as wav_file: body\<close>. When the open raises, nothing is
  created. Otherwise the file exists from then on, the body runs, and the writer is
  closed however the body ends.
\<close>

definition with_wave_open :: "env \<Rightarrow> string \<Rightarrow> string \<Rightarrow> unit prog \<Rightarrow> unit prog" where
  "with_wave_open e name mode body w =
     (if wave_open_fails e then (Raise OtherException, emit (WaveOpen name mode) w)
      else
        (case body ((emit (WaveOpen name mode) w)\<lparr>channel1_wav := Incomplete, wave_obj := None\<rparr>) of
           (r, w') \<Rightarrow> (r, (emit WaveClose w')\<lparr>wave_obj := None\<rparr>)))"

definition setparams :: "env \<Rightarrow> wav_params \<Rightarrow> unit prog" where
  "setparams e p w =
     (if wave_setparams_fails e p then (Raise OtherException, emit (SetParams p) w)
      else (Return (), (emit (SetParams p) w)\<lparr>wave_obj := Some p\<rparr>))"

text \<open>
  \<^verbatim>\<open>writeframes(data)\<close> writes the header from the parameters set before, then the data.
  Without parameters it raises.
\<close>

definition writeframes :: "env \<Rightarrow> byte list \<Rightarrow> unit prog" where
  "writeframes e data w =
     (case wave_obj w of
        None \<Rightarrow> (Raise OtherException, emit (WriteFrames data) w)
      | Some p \<Rightarrow>
          (if wave_writeframes_fails e data then (Raise OtherException, emit (WriteFrames data) w)
           else (Return (),
                 (emit (WriteFrames data) w)\<lparr>channel1_wav := Complete \<lparr>header = p, frames = data\<rparr>\<rparr>)))"

subsection \<open>The script\<close>

text \<open>Lines 37 to 52: open the session, query the settings, acquire the data, close.\<close>

definition acquire ::
  "(string \<Rightarrow> pyfloat option) \<Rightarrow> env \<Rightarrow> string \<Rightarrow> (pyfloat \<times> byte list) prog" where
  "acquire float e scope_resource_name =
     and_then (call (OpenResource scope_resource_name 20000 1024000)
                    (rm_open_resource e scope_resource_name)) (\<lambda>_.
     and_then (call (Query '':ACQ:SAMP?'') (scope_query e '':ACQ:SAMP?'')) (\<lambda>reply.
     and_then (py_float float reply) (\<lambda>sample_rate.
     and_then (print (SampleRate sample_rate)) (\<lambda>_.
     and_then (call (Write '':STOP'') (scope_write e '':STOP'')) (\<lambda>_.
     and_then (call (Write '':WAV:POIN:MODE RAW'') (scope_write e '':WAV:POIN:MODE RAW'')) (\<lambda>_.
     and_then (call (QueryBinaryValues '':WAV:DATA? CHAN1'' ''B'' ''ieee'' False)
                    (scope_query_binary_values e '':WAV:DATA? CHAN1'')) (\<lambda>rawdata_bytes.
     and_then (print (DataSize (length rawdata_bytes))) (\<lambda>_.
     and_then (call (Write '':KEY:FORCE'') (scope_write e '':KEY:FORCE'')) (\<lambda>_.
     and_then (call ScopeClose (scope_close e)) (\<lambda>_.
     return_val (sample_rate, rawdata_bytes)))))))))))"

text \<open>
  Lines 59 to 73: write the container. \<^verbatim>\<open>bytes(rawdata_bytes)\<close> turns the list of values
  0 to 255 into a bytes object; on a list of bytes it changes nothing.
\<close>

definition save :: "env \<Rightarrow> pyfloat \<Rightarrow> byte list \<Rightarrow> unit prog" where
  "save e sample_rate rawdata_bytes =
     (let data_size = length rawdata_bytes;
          rawdata_bytes_as_bytes = rawdata_bytes;
          wav_filename = ''channel1.wav'' in
      and_then (with_wave_open e wav_filename ''wb''
                 (and_then (py_int sample_rate) (\<lambda>rate.
                  and_then (setparams e
                    \<lparr>nchannels = 1, sampwidth = 1, framerate = rate, nframes = int data_size,
                     comptype = ''NONE'', compname = ''not compressed''\<rparr>) (\<lambda>_.
                  writeframes e rawdata_bytes_as_bytes)))) (\<lambda>_.
      print (DataSaved wav_filename)))"

text \<open>Lines 22 to 73: the body of the second \<^verbatim>\<open>try\<close>.\<close>

definition main_block :: "(string \<Rightarrow> pyfloat option) \<Rightarrow> env \<Rightarrow> unit prog" where
  "main_block float e =
     and_then (call ListResources (rm_list_resources e)) (\<lambda>resources.
     and_then (print (AvailableResources resources)) (\<lambda>_.
     let usb_resources = filter (\<lambda>res. py_in ''USB'' res) resources in
     if length usb_resources \<noteq> 1 then
       and_then (print (BadInstrumentList usb_resources)) (\<lambda>_.
       and_then rm_close (\<lambda>_.
       sys_exit (- 1)))
     else
       let scope_resource_name = usb_resources ! 0 in
       and_then (print (Connecting scope_resource_name)) (\<lambda>_.
       and_then (acquire float e scope_resource_name) (\<lambda>(sample_rate, rawdata_bytes).
       save e sample_rate rawdata_bytes))))"

text \<open>
  Lines 78 to 83, applied to the way the body of the \<^verbatim>\<open>try\<close> ended: \<^verbatim>\<open>VisaIOError\<close> and
  any other \<^verbatim>\<open>Exception\<close> are printed and the script falls off its end (status 0);
  \<^verbatim>\<open>SystemExit\<close> passes the handlers; the \<^verbatim>\<open>finally\<close> clause calls \<^verbatim>\<open>rm.close()\<close> in every
  case. Then the whole script; lines 14 to 19: only \<^verbatim>\<open>LibraryError\<close> is handled (message,
  status -1); any other exception of the constructor is not caught and the interpreter
  ends with status 1.
\<close>

definition except_finally :: "unit result \<times> world \<Rightarrow> int \<times> world" where
  "except_finally rw =
     (case rw of
        (Return _, w) \<Rightarrow> (0, emit RmClose w)
      | (Raise VisaIOError, w) \<Rightarrow> (0, emit RmClose (emit (Print VisaIOErrorMsg) w))
      | (Raise _, w) \<Rightarrow> (0, emit RmClose (emit (Print ErrorOccurred) w))
      | (SysExit n, w) \<Rightarrow> (n, emit RmClose w))"

definition run :: "(string \<Rightarrow> pyfloat option) \<Rightarrow> env \<Rightarrow> int \<times> world" where
  "run float e =
     (case call ResourceManager (rm_new e) world0 of
        (Raise LibraryError, w) \<Rightarrow> (- 1, emit (Print InitError) w)
      | (Raise _, w) \<Rightarrow> (1, w)
      | (SysExit n, w) \<Rightarrow> (n, w)
      | (Return _, w) \<Rightarrow> except_finally (main_block float e w))"

definition exit_status :: "(string \<Rightarrow> pyfloat option) \<Rightarrow> env \<Rightarrow> int" where
  "exit_status float e = fst (run float e)"

definition calls :: "(string \<Rightarrow> pyfloat option) \<Rightarrow> env \<Rightarrow> event list" where
  "calls float e = trace (snd (run float e))"

definition output_file :: "(string \<Rightarrow> pyfloat option) \<Rightarrow> env \<Rightarrow> file_state" where
  "output_file float e = channel1_wav (snd (run float e))"

subsection \<open>Observations on a run\<close>

text \<open>The sessions opened, in order: resource name, timeout, chunk size.\<close>

fun sessions_opened :: "event list \<Rightarrow> (string \<times> int \<times> int) list" where
  "sessions_opened [] = []"
| "sessions_opened (OpenResource n t c # evs) = (n, t, c) # sessions_opened evs"
| "sessions_opened (_ # evs) = sessions_opened evs"

text \<open>The command strings the instrument receives, in order.\<close>

fun commands_sent :: "event list \<Rightarrow> string list" where
  "commands_sent [] = []"
| "commands_sent (Query c # evs) = c # commands_sent evs"
| "commands_sent (Write c # evs) = c # commands_sent evs"
| "commands_sent (QueryBinaryValues c _ _ _ # evs) = c # commands_sent evs"
| "commands_sent (_ # evs) = commands_sent evs"

text \<open>
  The session discipline of the data model, as a monitor over the calls; the flag says
  whether a session is open. A session is opened only when none is open, a query, write
  or binary read is issued only on an open session, and only an open session is closed.
\<close>

fun session_ok :: "bool \<Rightarrow> event list \<Rightarrow> bool" where
  "session_ok opn [] = True"
| "session_ok opn (OpenResource _ _ _ # evs) = (\<not> opn \<and> session_ok True evs)"
| "session_ok opn (Query _ # evs) = (opn \<and> session_ok opn evs)"
| "session_ok opn (Write _ # evs) = (opn \<and> session_ok opn evs)"
| "session_ok opn (QueryBinaryValues _ _ _ _ # evs) = (opn \<and> session_ok opn evs)"
| "session_ok opn (ScopeClose # evs) = (opn \<and> session_ok False evs)"
| "session_ok opn (_ # evs) = session_ok opn evs"

text \<open>The calls on the provider that concern a session: opening it, using it, closing it.\<close>

fun is_session_call :: "event \<Rightarrow> bool" where
  "is_session_call (OpenResource _ _ _) = True"
| "is_session_call (Query _) = True"
| "is_session_call (Write _) = True"
| "is_session_call (QueryBinaryValues _ _ _ _) = True"
| "is_session_call ScopeClose = True"
| "is_session_call _ = False"

text \<open>The calls on the \<^verbatim>\<open>wave\<close> writer: the only calls that touch the output file.\<close>

fun is_wave_call :: "event \<Rightarrow> bool" where
  "is_wave_call (WaveOpen _ _) = True"
| "is_wave_call (SetParams _) = True"
| "is_wave_call (WriteFrames _) = True"
| "is_wave_call WaveClose = True"
| "is_wave_call _ = False"

text \<open>
  Conditions on the environment. \<open>discovered e r\<close>: the provider starts and the enumeration
  returns a list with exactly one USB-matching identifier, \<open>r\<close>. \<open>commands_return\<close>: the
  five commands return, with \<open>reply\<close> (a numeric string) and \<open>block\<close>.
  \<open>acquisition_returns\<close>: the whole of lines 37 to 52 returns. \<open>fails_by_read\<close>: a device
  step up to and including the binary-block read raises.
\<close>

definition discovered :: "env \<Rightarrow> string \<Rightarrow> bool" where
  "discovered e r \<longleftrightarrow>
     rm_new e = Inr () \<and>
     (case rm_list_resources e of
        Inl _ \<Rightarrow> False
      | Inr rs \<Rightarrow> filter (\<lambda>res. py_in ''USB'' res) rs = [r])"

definition commands_return ::
  "(string \<Rightarrow> pyfloat option) \<Rightarrow> env \<Rightarrow> string \<Rightarrow> byte list \<Rightarrow> bool" where
  "commands_return float e reply block \<longleftrightarrow>
     scope_query e '':ACQ:SAMP?'' = Inr reply \<and>
     float reply \<noteq> None \<and>
     scope_write e '':STOP'' = Inr () \<and>
     scope_write e '':WAV:POIN:MODE RAW'' = Inr () \<and>
     scope_query_binary_values e '':WAV:DATA? CHAN1'' = Inr block \<and>
     scope_write e '':KEY:FORCE'' = Inr ()"

definition acquisition_returns ::
  "(string \<Rightarrow> pyfloat option) \<Rightarrow> env \<Rightarrow> string \<Rightarrow> string \<Rightarrow> byte list \<Rightarrow> bool" where
  "acquisition_returns float e r reply block \<longleftrightarrow>
     rm_open_resource e r = Inr () \<and>
     commands_return float e reply block \<and>
     scope_close e = Inr ()"

definition fails_by_read :: "env \<Rightarrow> string \<Rightarrow> bool" where
  "fails_by_read e r \<longleftrightarrow>
     isl (rm_open_resource e r) \<or>
     isl (scope_query e '':ACQ:SAMP?'') \<or>
     isl (scope_write e '':STOP'') \<or>
     isl (scope_write e '':WAV:POIN:MODE RAW'') \<or>
     isl (scope_query_binary_values e '':WAV:DATA? CHAN1'')"

text \<open>\<open>writer_returns\<close>: the calls on the \<^verbatim>\<open>wave\<close> writer of lines 63 to 71 return.\<close>

definition writer_returns :: "env \<Rightarrow> real \<Rightarrow> byte list \<Rightarrow> bool" where
  "writer_returns e x block \<longleftrightarrow>
     \<not> wave_open_fails e \<and>
     \<not> wave_setparams_fails e
         \<lparr>nchannels = 1, sampwidth = 1, framerate = py_trunc x, nframes = int (length block),
          comptype = ''NONE'', compname = ''not compressed''\<rparr> \<and>
     \<not> wave_writeframes_fails e block"


subsection \<open>Example environments\<close>

text \<open>
  A bench on which every call returns: the provider lists \<open>rs\<close>, the scope answers the
  sample-rate query with \<open>reply\<close> and the binary-block read with \<open>block\<close>.
\<close>

definition bench :: "string list \<Rightarrow> string \<Rightarrow> byte list \<Rightarrow> env" where
  "bench rs reply block =
     \<lparr>rm_new = Inr (),
      rm_list_resources = Inr rs,
      rm_open_resource = (\<lambda>_. Inr ()),
      scope_query = (\<lambda>_. Inr reply),
      scope_write = (\<lambda>_. Inr ()),
      scope_query_binary_values = (\<lambda>_. Inr block),
      scope_close = Inr (),
      wave_open_fails = False,
      wave_setparams_fails = (\<lambda>_. False),
      wave_writeframes_fails = (\<lambda>_. False)\<rparr>"

definition usb_scope :: string where
  "usb_scope = ''USB0::0x1AB1::0x0588::DS1ED141904883::INSTR''"

definition serial_port :: string where
  "serial_port = ''ASRL1::INSTR''"

text \<open>
  \<^verbatim>\<open>float\<close> on the replies used in the examples; every other string stands for a reply
  that is not numeric.
\<close>

definition float_table :: "string \<Rightarrow> pyfloat option" where
  "float_table s =
     (if s = ''1000000.0'' then Some (Fin 1000000)
      else if s = ''inf'' then Some (Infinity False)
      else None)"

text \<open>
  The same bench with a read that times out, with a scope that answers the sample-rate
  query with text, with a scope on which the last command times out, and with a provider
  whose constructor raises a \<^verbatim>\<open>LibraryError\<close> or an exception that is not a \<^verbatim>\<open>LibraryError\<close>.
\<close>

definition read_times_out :: env where
  "read_times_out =
     (bench [usb_scope] ''1000000.0'' [])\<lparr>scope_query_binary_values := (\<lambda>_. Inl VisaIOError)\<rparr>"

definition text_reply :: env where
  "text_reply = bench [usb_scope] ''no signal'' [1, 2, 3]"

definition key_force_fails :: env where
  "key_force_fails =
     (bench [usb_scope] ''1000000.0'' [1, 2, 3])
       \<lparr>scope_write := (\<lambda>cmd. if cmd = '':KEY:FORCE'' then Inl VisaIOError else Inr ())\<rparr>"

definition library_missing :: env where
  "library_missing = (bench [usb_scope] ''1000000.0'' [])\<lparr>rm_new := Inl LibraryError\<rparr>"

definition no_backend :: env where
  "no_backend = (bench [usb_scope] ''1000000.0'' [])\<lparr>rm_new := Inl OtherException\<rparr>"

section \<open>Executing the script step by step\<close>

lemma trace_emit: "trace (emit ev w) = trace w @ [ev]"
  by (simp add: emit_def)

lemma file_emit: "channel1_wav (emit ev w) = channel1_wav w"
  by (simp add: emit_def)

lemma obj_emit: "wave_obj (emit ev w) = wave_obj w"
  by (simp add: emit_def)

lemma and_then_call:
  "and_then (call ev r) f w =
     (case r of Inl x \<Rightarrow> (Raise x, emit ev w) | Inr v \<Rightarrow> f v (emit ev w))"
  by (simp add: and_then_def call_def split: sum.splits)

lemma and_then_print: "and_then (print m) f w = f () (emit (Print m) w)"
  by (simp add: and_then_def print_def)

lemma and_then_rm_close: "and_then rm_close f w = f () (emit RmClose w)"
  by (simp add: and_then_def rm_close_def)

lemma and_then_return_val: "and_then (return_val v) f w = f v w"
  by (simp add: and_then_def return_val_def)

lemma and_then_py_float:
  "and_then (py_float float s) f w =
     (case float s of None \<Rightarrow> (Raise OtherException, w) | Some x \<Rightarrow> f x w)"
  by (simp add: and_then_def py_float_def split: option.splits)

lemma and_then_py_int:
  "and_then (py_int x) f w =
     (case x of
        Fin r \<Rightarrow> f (py_trunc r) w
      | Infinity b \<Rightarrow> (Raise OtherException, w)
      | NaN \<Rightarrow> (Raise OtherException, w))"
  by (simp add: and_then_def py_int_def split: pyfloat.splits)

lemma and_then_setparams:
  "and_then (setparams e p) f w =
     (if wave_setparams_fails e p then (Raise OtherException, emit (SetParams p) w)
      else f () ((emit (SetParams p) w)\<lparr>wave_obj := Some p\<rparr>))"
  by (simp add: and_then_def setparams_def)

text \<open>The three ways the script can end before a session is opened, and what is left.\<close>

lemma run_init_library:
  "rm_new e = Inl LibraryError \<Longrightarrow>
   run float e =
     (- 1, \<lparr>trace = [ResourceManager, Print InitError], channel1_wav = Absent, wave_obj = None\<rparr>)"
  by (simp add: run_def call_def emit_def world0_def)

lemma run_init_other:
  "rm_new e = Inl x \<Longrightarrow> x \<noteq> LibraryError \<Longrightarrow>
   run float e = (1, \<lparr>trace = [ResourceManager], channel1_wav = Absent, wave_obj = None\<rparr>)"
  by (cases x) (simp_all add: run_def call_def emit_def world0_def)

lemma main_block_list_fails:
  "rm_list_resources e = Inl x \<Longrightarrow> main_block float e w = (Raise x, emit ListResources w)"
  by (simp add: main_block_def and_then_call)

lemma main_block_ambiguous:
  "rm_list_resources e = Inr rs \<Longrightarrow> length (filter (\<lambda>res. py_in ''USB'' res) rs) \<noteq> 1 \<Longrightarrow>
   main_block float e w =
     (SysExit (- 1),
      emit RmClose (emit (Print (BadInstrumentList (filter (\<lambda>res. py_in ''USB'' res) rs)))
        (emit (Print (AvailableResources rs)) (emit ListResources w))))"
  by (simp add: main_block_def and_then_call and_then_print and_then_rm_close sys_exit_def Let_def)

lemma main_block_single:
  "rm_list_resources e = Inr rs \<Longrightarrow> filter (\<lambda>res. py_in ''USB'' res) rs = [r] \<Longrightarrow>
   main_block float e w =
     and_then (acquire float e r) (\<lambda>(sample_rate, rawdata_bytes). save e sample_rate rawdata_bytes)
       (emit (Print (Connecting r)) (emit (Print (AvailableResources rs)) (emit ListResources w)))"
  by (simp add: main_block_def and_then_call and_then_print Let_def)

subsection \<open>Lines 37 to 52\<close>

lemmas acq_steps = and_then_call and_then_print and_then_py_float and_then_return_val return_val_def call_def

lemma acquire_returns:
  "acquisition_returns float e r reply block \<Longrightarrow> float reply = Some sr \<Longrightarrow>
   acquire float e r w =
     (Return (sr, block),
      emit ScopeClose (emit (Write '':KEY:FORCE'') (emit (Print (DataSize (length block)))
        (emit (QueryBinaryValues '':WAV:DATA? CHAN1'' ''B'' ''ieee'' False)
        (emit (Write '':WAV:POIN:MODE RAW'') (emit (Write '':STOP'') (emit (Print (SampleRate sr))
        (emit (Query '':ACQ:SAMP?'') (emit (OpenResource r 20000 1024000) w)))))))))"
  by (simp add: acquire_def acquisition_returns_def commands_return_def acq_steps)

lemma acquire_parse_fails:
  "rm_open_resource e r = Inr () \<Longrightarrow> scope_query e '':ACQ:SAMP?'' = Inr reply \<Longrightarrow>
   float reply = None \<Longrightarrow>
   acquire float e r w =
     (Raise OtherException, emit (Query '':ACQ:SAMP?'') (emit (OpenResource r 20000 1024000) w))"
  by (simp add: acquire_def acq_steps)

lemma acquire_keeps:
  "acquire float e r w = (res, w') \<Longrightarrow>
   channel1_wav w' = channel1_wav w \<and> wave_obj w' = wave_obj w"
  unfolding acquire_def
  by (simp add: acq_steps split: sum.splits option.splits) (auto simp: file_emit obj_emit)

lemma acquire_result:
  "acquire float e r w = (res, w') \<Longrightarrow>
   (\<exists>x. res = Raise x) \<or>
   (\<exists>sr reply block. res = Return (sr, block) \<and> acquisition_returns float e r reply block \<and>
      float reply = Some sr)"
  unfolding acquire_def acquisition_returns_def commands_return_def
  by (simp add: acq_steps split: sum.splits option.splits) auto

lemma acquire_calls:
  "acquire float e r w = (res, w') \<Longrightarrow>
   \<exists>t. trace w' = trace w @ t \<and> sessions_opened t = [(r, 20000, 1024000)] \<and>
       filter is_wave_call t = [] \<and> count_list t RmClose = 0 \<and> session_ok False t \<and>
       count_list t ScopeClose \<le> 1"
  unfolding acquire_def
  by (simp add: acq_steps split: sum.splits option.splits) (auto simp: trace_emit)

lemma acquire_close_count:
  "acquire float e r w = (res, w') \<Longrightarrow> rm_open_resource e r = Inr () \<Longrightarrow>
   (count_list (trace w') ScopeClose = count_list (trace w) ScopeClose + 1) =
   (\<exists>reply block. commands_return float e reply block)"
  unfolding acquire_def commands_return_def
  by (simp add: acq_steps split: sum.splits option.splits) (auto simp: trace_emit)

subsection \<open>Lines 59 to 73\<close>

lemma and_then_with:
  "and_then (with_wave_open e name mode body) f w =
     (if wave_open_fails e then (Raise OtherException, emit (WaveOpen name mode) w)
      else
        (case body ((emit (WaveOpen name mode) w)\<lparr>channel1_wav := Incomplete, wave_obj := None\<rparr>) of
           (Return v, w') \<Rightarrow> f v ((emit WaveClose w')\<lparr>wave_obj := None\<rparr>)
         | (Raise x, w') \<Rightarrow> (Raise x, (emit WaveClose w')\<lparr>wave_obj := None\<rparr>)
         | (SysExit n, w') \<Rightarrow> (SysExit n, (emit WaveClose w')\<lparr>wave_obj := None\<rparr>)))"
  by (simp add: and_then_def with_wave_open_def split: prod.splits result.splits)

lemmas save_steps = and_then_with and_then_py_int and_then_setparams writeframes_def print_def
  obj_emit file_emit trace_emit

lemma save_returns:
  "\<not> wave_open_fails e \<Longrightarrow>
   \<not> wave_setparams_fails e
       \<lparr>nchannels = 1, sampwidth = 1, framerate = py_trunc x, nframes = int (length block),
        comptype = ''NONE'', compname = ''not compressed''\<rparr> \<Longrightarrow>
   \<not> wave_writeframes_fails e block \<Longrightarrow>
   \<exists>w'. save e (Fin x) block w = (Return (), w') \<and>
     trace w' = trace w @
       [WaveOpen ''channel1.wav'' ''wb'',
        SetParams \<lparr>nchannels = 1, sampwidth = 1, framerate = py_trunc x,
          nframes = int (length block), comptype = ''NONE'', compname = ''not compressed''\<rparr>,
        WriteFrames block, WaveClose, Print (DataSaved ''channel1.wav'')] \<and>
     channel1_wav w' =
       Complete \<lparr>header = \<lparr>nchannels = 1, sampwidth = 1, framerate = py_trunc x,
         nframes = int (length block), comptype = ''NONE'', compname = ''not compressed''\<rparr>,
         frames = block\<rparr>"
  unfolding save_def Let_def
  by (simp add: save_steps)

lemma save_result:
  "save e sr block w = (res, w') \<Longrightarrow> (\<exists>x. res = Raise x) \<or> res = Return ()"
  unfolding save_def Let_def
  by (simp add: save_steps split: pyfloat.splits if_splits) (auto simp: save_steps)

lemma save_calls:
  "save e sr block w = (res, w') \<Longrightarrow>
   \<exists>t. trace w' = trace w @ t \<and> filter is_session_call t = [] \<and> count_list t RmClose = 0 \<and>
       filter is_wave_call t \<noteq> []"
  unfolding save_def Let_def
  by (simp add: save_steps split: pyfloat.splits if_splits) (auto simp: save_steps)

lemma save_file:
  "save e sr block w = (res, w') \<Longrightarrow>
   channel1_wav w' = channel1_wav w \<or> channel1_wav w' = Incomplete \<or>
   (\<exists>x. sr = Fin x \<and> res = Return () \<and> writer_returns e x block \<and>
      channel1_wav w' =
        Complete \<lparr>header = \<lparr>nchannels = 1, sampwidth = 1, framerate = py_trunc x,
          nframes = int (length block), comptype = ''NONE'', compname = ''not compressed''\<rparr>,
          frames = block\<rparr>)"
  unfolding save_def Let_def writer_returns_def
  by (simp add: save_steps split: pyfloat.splits if_splits) (auto simp: save_steps)

subsection \<open>Observations and concatenation\<close>

lemma sessions_opened_append:
  "sessions_opened (xs @ ys) = sessions_opened xs @ sessions_opened ys"
  by (induction xs rule: sessions_opened.induct) simp_all

lemma commands_sent_append: "commands_sent (xs @ ys) = commands_sent xs @ commands_sent ys"
  by (induction xs rule: commands_sent.induct) simp_all

lemma sessions_opened_quiet: "filter is_session_call t = [] \<Longrightarrow> sessions_opened t = []"
  by (induction t rule: sessions_opened.induct) (simp_all split: if_splits)

lemma commands_sent_quiet: "filter is_session_call t = [] \<Longrightarrow> commands_sent t = []"
  by (induction t rule: commands_sent.induct) (simp_all split: if_splits)

lemma scope_close_quiet: "filter is_session_call t = [] \<Longrightarrow> count_list t ScopeClose = 0"
  by (induction t) (auto split: if_splits)

lemma session_ok_quiet_prefix:
  "filter is_session_call xs = [] \<Longrightarrow> session_ok b (xs @ ys) = session_ok b ys"
  by (induction b xs rule: session_ok.induct) (simp_all split: if_splits)

lemma session_ok_quiet_suffix:
  "filter is_session_call ys = [] \<Longrightarrow> session_ok b (xs @ ys) = session_ok b xs"
proof (induction b xs rule: session_ok.induct)
  case (1 opn)
  then show ?case using session_ok_quiet_prefix [of ys opn "[]"] by simp
qed simp_all

subsection \<open>Lines 37 to 73 together\<close>

lemma session_Raise:
  "acquire float e r w = (Raise x, wa) \<Longrightarrow>
   and_then (acquire float e r) (\<lambda>(sample_rate, rawdata_bytes). save e sample_rate rawdata_bytes) w
     = (Raise x, wa)"
  by (simp add: and_then_def)

lemma session_Return:
  "acquire float e r w = (Return (sr, block), wa) \<Longrightarrow>
   and_then (acquire float e r) (\<lambda>(sample_rate, rawdata_bytes). save e sample_rate rawdata_bytes) w
     = save e sr block wa"
  by (simp add: and_then_def)

lemma session_cases [consumes 1, case_names Raise Return]:
  assumes "and_then (acquire float e r)
             (\<lambda>(sample_rate, rawdata_bytes). save e sample_rate rawdata_bytes) w = (res, w')"
    and "\<And>x. acquire float e r w = (Raise x, w') \<Longrightarrow> res = Raise x \<Longrightarrow> P"
    and "\<And>sr reply block wa.
           acquire float e r w = (Return (sr, block), wa) \<Longrightarrow>
           acquisition_returns float e r reply block \<Longrightarrow> float reply = Some sr \<Longrightarrow>
           save e sr block wa = (res, w') \<Longrightarrow> P"
  shows P
proof -
  obtain ra wa where acq: "acquire float e r w = (ra, wa)"
    by (cases "acquire float e r w")
  from acquire_result [OF acq] show P
  proof (elim disjE exE conjE)
    fix x assume "ra = Raise x"
    with acq assms(1) show P
      using session_Raise [of float e r w x wa] assms(2) [of x] by simp
  next
    fix sr reply block
    assume "ra = Return (sr, block)" "acquisition_returns float e r reply block"
      "float reply = Some sr"
    with acq assms(1) show P
      using session_Return [of float e r w sr block wa] assms(3) [of sr block wa reply] by simp
  qed
qed

subsection \<open>The paths of a run\<close>

lemma except_finally_simps:
  "except_finally (Return u, w) = (0, emit RmClose w)"
  "except_finally (Raise x, w) =
     (0, emit RmClose (emit (Print (if x = VisaIOError then VisaIOErrorMsg else ErrorOccurred)) w))"
  "except_finally (SysExit n, w) = (n, emit RmClose w)"
  by (cases x; simp add: except_finally_def)+

lemma run_started:
  "rm_new e = Inr () \<Longrightarrow>
   run float e = except_finally (main_block float e (emit ResourceManager world0))"
  by (simp add: run_def call_def)

lemma run_list_fails:
  "rm_new e = Inr () \<Longrightarrow> rm_list_resources e = Inl x \<Longrightarrow>
   run float e =
     (0, \<lparr>trace = [ResourceManager, ListResources,
              Print (if x = VisaIOError then VisaIOErrorMsg else ErrorOccurred), RmClose],
          channel1_wav = Absent, wave_obj = None\<rparr>)"
  by (simp add: run_started main_block_list_fails except_finally_simps emit_def world0_def)

lemma run_ambiguous:
  "rm_new e = Inr () \<Longrightarrow> rm_list_resources e = Inr rs \<Longrightarrow>
   length (filter (\<lambda>res. py_in ''USB'' res) rs) \<noteq> 1 \<Longrightarrow>
   run float e =
     (- 1, \<lparr>trace = [ResourceManager, ListResources, Print (AvailableResources rs),
              Print (BadInstrumentList (filter (\<lambda>res. py_in ''USB'' res) rs)), RmClose, RmClose],
            channel1_wav = Absent, wave_obj = None\<rparr>)"
  by (simp add: run_started main_block_ambiguous except_finally_simps emit_def world0_def)

lemma run_single:
  "rm_new e = Inr () \<Longrightarrow> rm_list_resources e = Inr rs \<Longrightarrow>
   filter (\<lambda>res. py_in ''USB'' res) rs = [r] \<Longrightarrow>
   run float e =
     except_finally
       (and_then (acquire float e r)
          (\<lambda>(sample_rate, rawdata_bytes). save e sample_rate rawdata_bytes)
          \<lparr>trace = [ResourceManager, ListResources, Print (AvailableResources rs),
                    Print (Connecting r)],
           channel1_wav = Absent, wave_obj = None\<rparr>)"
  by (simp add: run_started main_block_single emit_def world0_def)

lemma discovered_iff:
  "discovered e r \<longleftrightarrow>
   rm_new e = Inr () \<and> (\<exists>rs. rm_list_resources e = Inr rs \<and> filter (\<lambda>res. py_in ''USB'' res) rs = [r])"
  by (auto simp: discovered_def split: sum.splits)

lemma run_paths [case_names init_fails list_fails ambiguous single]:
  assumes "\<And>x. rm_new e = Inl x \<Longrightarrow> P"
    and "\<And>x. rm_new e = Inr () \<Longrightarrow> rm_list_resources e = Inl x \<Longrightarrow> P"
    and "\<And>rs. rm_new e = Inr () \<Longrightarrow> rm_list_resources e = Inr rs \<Longrightarrow>
           length (filter (\<lambda>res. py_in ''USB'' res) rs) \<noteq> 1 \<Longrightarrow> P"
    and "\<And>rs r. rm_new e = Inr () \<Longrightarrow> rm_list_resources e = Inr rs \<Longrightarrow>
           filter (\<lambda>res. py_in ''USB'' res) rs = [r] \<Longrightarrow> P"
  shows P
proof (cases "rm_new e")
  case (Inl x)
  then show ?thesis by (rule assms(1))
next
  case (Inr u)
  then have new: "rm_new e = Inr ()" by simp
  show ?thesis
  proof (cases "rm_list_resources e")
    case (Inl x)
    with new show ?thesis by (rule assms(2))
  next
    case (Inr rs)
    show ?thesis
    proof (cases "length (filter (\<lambda>res. py_in ''USB'' res) rs) = 1")
      case True
      then obtain r where "filter (\<lambda>res. py_in ''USB'' res) rs = [r]"
        by (auto simp: length_Suc_conv)
      with new Inr show ?thesis by (rule assms(4))
    next
      case False
      with new Inr show ?thesis by (rule assms(3))
    qed
  qed
qed

subsection \<open>A run that reaches line 37\<close>

lemma run_session_calls:
  assumes new: "rm_new e = Inr ()"
    and list: "rm_list_resources e = Inr rs"
    and single: "filter (\<lambda>res. py_in ''USB'' res) rs = [r]"
  shows "\<exists>ta ts h.
           calls float e =
             [ResourceManager, ListResources, Print (AvailableResources rs), Print (Connecting r)]
               @ ta @ ts @ h \<and>
           sessions_opened ta = [(r, 20000, 1024000)] \<and> filter is_wave_call ta = [] \<and>
           count_list ta RmClose = 0 \<and> session_ok False ta \<and> count_list ta ScopeClose \<le> 1 \<and>
           filter is_session_call ts = [] \<and> count_list ts RmClose = 0 \<and>
           (ts \<noteq> [] \<longrightarrow> (\<exists>reply block. acquisition_returns float e r reply block)) \<and>
           (h = [RmClose] \<or> h = [Print VisaIOErrorMsg, RmClose] \<or> h = [Print ErrorOccurred, RmClose]) \<and>
           exit_status float e = 0"
proof -
  let ?W = "\<lparr>trace = [ResourceManager, ListResources, Print (AvailableResources rs),
                       Print (Connecting r)],
              channel1_wav = Absent, wave_obj = None\<rparr>"
  obtain res w' where s:
    "and_then (acquire float e r)
       (\<lambda>(sample_rate, rawdata_bytes). save e sample_rate rawdata_bytes) ?W = (res, w')"
    by (cases "and_then (acquire float e r)
       (\<lambda>(sample_rate, rawdata_bytes). save e sample_rate rawdata_bytes) ?W")
  have run: "run float e = except_finally (res, w')"
    using run_single [OF new list single, of float] s by simp
  from s show ?thesis
  proof (cases rule: session_cases)
    case (Raise x)
    from acquire_calls [OF Raise(1)] obtain ta where ta:
      "trace w' = trace ?W @ ta" "sessions_opened ta = [(r, 20000, 1024000)]"
      "filter is_wave_call ta = []" "count_list ta RmClose = 0" "session_ok False ta"
      "count_list ta ScopeClose \<le> 1"
      by blast
    define h where "h = [Print (if x = VisaIOError then VisaIOErrorMsg else ErrorOccurred), RmClose]"
    have run': "run float e = (0, emit RmClose (emit (Print (if x = VisaIOError then VisaIOErrorMsg else ErrorOccurred)) w'))"
      unfolding run Raise(2) by (rule except_finally_simps)
    have c: "calls float e = [ResourceManager, ListResources, Print (AvailableResources rs),
        Print (Connecting r)] @ ta @ [] @ h"
      unfolding calls_def run' h_def by (simp add: trace_emit ta(1))
    have x: "exit_status float e = 0"
      unfolding exit_status_def run' by simp
    have h: "h = [RmClose] \<or> h = [Print VisaIOErrorMsg, RmClose] \<or> h = [Print ErrorOccurred, RmClose]"
      unfolding h_def by simp
    have q: "filter is_session_call [] = []" "count_list [] RmClose = 0"
      by simp_all
    from c x h q ta(2-) show ?thesis
      by blast
  next
    case (Return sr reply block wa)
    from acquire_calls [OF Return(1)] obtain ta where ta:
      "trace wa = trace ?W @ ta" "sessions_opened ta = [(r, 20000, 1024000)]"
      "filter is_wave_call ta = []" "count_list ta RmClose = 0" "session_ok False ta"
      "count_list ta ScopeClose \<le> 1"
      by blast
    from save_calls [OF Return(4)] obtain ts where ts:
      "trace w' = trace wa @ ts" "filter is_session_call ts = []" "count_list ts RmClose = 0"
      by blast
    define h where "h = drop (length (trace w')) (calls float e)"
    have hx: "calls float e = trace w' @ h \<and>
       (h = [RmClose] \<or> h = [Print VisaIOErrorMsg, RmClose] \<or> h = [Print ErrorOccurred, RmClose]) \<and>
       exit_status float e = 0"
      using save_result [OF Return(4)]
    proof (elim disjE exE)
      fix x assume "res = Raise x"
      then have "run float e = (0, emit RmClose (emit (Print (if x = VisaIOError then VisaIOErrorMsg else ErrorOccurred)) w'))"
        unfolding run by (simp only: except_finally_simps)
      then show ?thesis
        unfolding h_def calls_def exit_status_def by (simp add: trace_emit)
    next
      assume "res = Return ()"
      then have "run float e = (0, emit RmClose w')"
        unfolding run by (simp only: except_finally_simps)
      then show ?thesis
        unfolding h_def calls_def exit_status_def by (simp add: trace_emit)
    qed
    have c: "calls float e = [ResourceManager, ListResources, Print (AvailableResources rs),
        Print (Connecting r)] @ ta @ ts @ h"
      using hx ts(1) ta(1) by simp
    have a: "\<exists>reply block. acquisition_returns float e r reply block"
      using Return(2) by blast
    from c a hx ta(2-) ts(2-) show ?thesis
      by blast
  qed
qed

text \<open>How often \<^verbatim>\<open>rm.close()\<close> is called once the provider has started.\<close>

lemma release_count:
  assumes "rm_new e = Inr ()"
  shows "count_list (calls float e) RmClose =
     (case rm_list_resources e of
        Inl x \<Rightarrow> 1
      | Inr rs \<Rightarrow> if length (filter (\<lambda>res. py_in ''USB'' res) rs) \<noteq> 1 then 2 else 1)"
proof (cases rule: run_paths [of e])
  case (init_fails x)
  with assms show ?thesis by simp
next
  case (list_fails x)
  then show ?thesis
    by (simp add: calls_def run_list_fails)
next
  case (ambiguous rs)
  then show ?thesis
    by (simp add: calls_def run_ambiguous)
next
  case (single rs r)
  from run_session_calls [OF single, of float] obtain ta ts h where
    c: "calls float e =
          [ResourceManager, ListResources, Print (AvailableResources rs), Print (Connecting r)]
            @ ta @ ts @ h"
    and ta: "count_list ta RmClose = 0"
    and ts: "count_list ts RmClose = 0"
    and h: "h = [RmClose] \<or> h = [Print VisaIOErrorMsg, RmClose] \<or> h = [Print ErrorOccurred, RmClose]"
    by blast
  from h have "count_list h RmClose = 1"
    by (elim disjE) simp_all
  with ta ts single show ?thesis
    unfolding c by simp
qed

text \<open>The output file of a run that reaches line 37.\<close>

lemma except_finally_file: "channel1_wav (snd (except_finally (res, w))) = channel1_wav w"
  by (cases res) (simp_all add: except_finally_simps file_emit)

lemma fails_not_returns: "fails_by_read e r \<Longrightarrow> \<not> acquisition_returns float e r reply block"
  by (auto simp: fails_by_read_def acquisition_returns_def commands_return_def)

lemma run_session_file:
  assumes new: "rm_new e = Inr ()"
    and list: "rm_list_resources e = Inr rs"
    and single: "filter (\<lambda>res. py_in ''USB'' res) rs = [r]"
  shows "output_file float e = Absent \<or>
         (output_file float e = Incomplete \<and> (\<exists>reply block. acquisition_returns float e r reply block)) \<or>
         (\<exists>reply block x.
            acquisition_returns float e r reply block \<and> float reply = Some (Fin x) \<and>
            writer_returns e x block \<and>
            output_file float e =
              Complete \<lparr>header = \<lparr>nchannels = 1, sampwidth = 1, framerate = py_trunc x,
                nframes = int (length block), comptype = ''NONE'', compname = ''not compressed''\<rparr>,
                frames = block\<rparr>)"
proof -
  let ?W = "\<lparr>trace = [ResourceManager, ListResources, Print (AvailableResources rs),
                       Print (Connecting r)],
              channel1_wav = Absent, wave_obj = None\<rparr>"
  obtain res w' where s:
    "and_then (acquire float e r)
       (\<lambda>(sample_rate, rawdata_bytes). save e sample_rate rawdata_bytes) ?W = (res, w')"
    by (cases "and_then (acquire float e r)
       (\<lambda>(sample_rate, rawdata_bytes). save e sample_rate rawdata_bytes) ?W")
  have run: "run float e = except_finally (res, w')"
    using run_single [OF new list single, of float] s by simp
  have out: "output_file float e = channel1_wav w'"
    unfolding output_file_def run by (rule except_finally_file)
  from s show ?thesis
  proof (cases rule: session_cases)
    case (Raise x)
    from acquire_keeps [OF Raise(1)] have "channel1_wav w' = Absent"
      by simp
    with out show ?thesis by simp
  next
    case (Return sr reply block wa)
    from acquire_keeps [OF Return(1)] have wa: "channel1_wav wa = Absent"
      by simp
    from save_file [OF Return(4)] show ?thesis
    proof (elim disjE exE conjE)
      assume "channel1_wav w' = channel1_wav wa"
      with wa out show ?thesis by simp
    next
      assume "channel1_wav w' = Incomplete"
      with out Return(2) show ?thesis by auto
    next
      fix x
      assume "sr = Fin x" and "writer_returns e x block" and "channel1_wav w' =
        Complete \<lparr>header = \<lparr>nchannels = 1, sampwidth = 1, framerate = py_trunc x,
          nframes = int (length block), comptype = ''NONE'', compname = ''not compressed''\<rparr>,
          frames = block\<rparr>"
      with out Return(2,3) show ?thesis by auto
    qed
  qed
qed

lemma run_session_fails:
  assumes new: "rm_new e = Inr ()"
    and list: "rm_list_resources e = Inr rs"
    and single: "filter (\<lambda>res. py_in ''USB'' res) rs = [r]"
    and fails: "fails_by_read e r"
  shows "output_file float e = Absent \<and> filter is_wave_call (calls float e) = [] \<and>
         count_list (calls float e) RmClose = 1 \<and> last (calls float e) = RmClose"
proof -
  from run_session_calls [OF new list single, of float] obtain ta ts h where
    c: "calls float e =
          [ResourceManager, ListResources, Print (AvailableResources rs), Print (Connecting r)]
            @ ta @ ts @ h"
    and ta: "filter is_wave_call ta = []"
    and ts: "ts \<noteq> [] \<longrightarrow> (\<exists>reply block. acquisition_returns float e r reply block)"
    and h: "h = [RmClose] \<or> h = [Print VisaIOErrorMsg, RmClose] \<or> h = [Print ErrorOccurred, RmClose]"
    by blast
  from ts fails_not_returns [OF fails, of float] have nil: "ts = []"
    by blast
  from h have hw: "filter is_wave_call h = []" and hl: "last (xs @ h) = RmClose" for xs
    by (elim disjE; simp)+
  have w: "filter is_wave_call (calls float e) = []"
    unfolding c nil using ta hw by simp
  have l: "last (calls float e) = RmClose"
    using hl [of "[ResourceManager, ListResources, Print (AvailableResources rs),
      Print (Connecting r)] @ ta"] unfolding c nil by simp
  have n: "count_list (calls float e) RmClose = 1"
    using release_count [OF new, of float] list single by simp
  from run_session_file [OF new list single, of float] fails_not_returns [OF fails, of float]
  have "output_file float e = Absent"
    by blast
  with w l n show ?thesis by simp
qed

lemma written_container:
  assumes "output_file float e = Complete c"
  shows "\<exists>r reply block x.
           discovered e r \<and> acquisition_returns float e r reply block \<and>
           float reply = Some (Fin x) \<and> writer_returns e x block \<and>
           c = \<lparr>header = \<lparr>nchannels = 1, sampwidth = 1, framerate = py_trunc x,
                 nframes = int (length block), comptype = ''NONE'', compname = ''not compressed''\<rparr>,
                frames = block\<rparr>"
proof (cases rule: run_paths [of e])
  case (init_fails x)
  then have "output_file float e = Absent"
    by (cases "x = LibraryError") (simp_all add: output_file_def run_init_library run_init_other)
  with assms show ?thesis by simp
next
  case (list_fails x)
  then have "output_file float e = Absent"
    by (simp add: output_file_def run_list_fails)
  with assms show ?thesis by simp
next
  case (ambiguous rs)
  then have "output_file float e = Absent"
    by (simp add: output_file_def run_ambiguous)
  with assms show ?thesis by simp
next
  case (single rs r)
  then have "discovered e r"
    by (auto simp: discovered_iff)
  with run_session_file [OF single, of float] assms show ?thesis
    by auto
qed

text \<open>The run in which every call returns.\<close>

lemma run_success:
  assumes d: "discovered e r"
    and a: "acquisition_returns float e r reply block"
    and f: "float reply = Some (Fin x)"
    and s: "writer_returns e x block"
  shows "\<exists>rs. calls float e =
           [ResourceManager, ListResources, Print (AvailableResources rs), Print (Connecting r),
            OpenResource r 20000 1024000, Query '':ACQ:SAMP?'', Print (SampleRate (Fin x)),
            Write '':STOP'', Write '':WAV:POIN:MODE RAW'',
            QueryBinaryValues '':WAV:DATA? CHAN1'' ''B'' ''ieee'' False,
            Print (DataSize (length block)), Write '':KEY:FORCE'', ScopeClose,
            WaveOpen ''channel1.wav'' ''wb'',
            SetParams \<lparr>nchannels = 1, sampwidth = 1, framerate = py_trunc x,
              nframes = int (length block), comptype = ''NONE'', compname = ''not compressed''\<rparr>,
            WriteFrames block, WaveClose, Print (DataSaved ''channel1.wav''), RmClose]"
    and "output_file float e =
           Complete \<lparr>header = \<lparr>nchannels = 1, sampwidth = 1, framerate = py_trunc x,
             nframes = int (length block), comptype = ''NONE'', compname = ''not compressed''\<rparr>,
             frames = block\<rparr>"
    and "exit_status float e = 0"
proof -
  from d obtain rs where new: "rm_new e = Inr ()" and list: "rm_list_resources e = Inr rs"
    and single: "filter (\<lambda>res. py_in ''USB'' res) rs = [r]"
    by (auto simp: discovered_iff)
  let ?W = "\<lparr>trace = [ResourceManager, ListResources, Print (AvailableResources rs),
                       Print (Connecting r)],
              channel1_wav = Absent, wave_obj = None\<rparr>"
  define wa where "wa = emit ScopeClose (emit (Write '':KEY:FORCE'') (emit (Print (DataSize (length block)))
        (emit (QueryBinaryValues '':WAV:DATA? CHAN1'' ''B'' ''ieee'' False)
        (emit (Write '':WAV:POIN:MODE RAW'') (emit (Write '':STOP'') (emit (Print (SampleRate (Fin x)))
        (emit (Query '':ACQ:SAMP?'') (emit (OpenResource r 20000 1024000) ?W))))))))"
  have acq: "acquire float e r ?W = (Return (Fin x, block), wa)"
    unfolding wa_def by (rule acquire_returns [OF a f])
  from s save_returns [of e x block wa] obtain w' where
    sv: "save e (Fin x) block wa = (Return (), w')"
    and tr: "trace w' = trace wa @
       [WaveOpen ''channel1.wav'' ''wb'',
        SetParams \<lparr>nchannels = 1, sampwidth = 1, framerate = py_trunc x,
          nframes = int (length block), comptype = ''NONE'', compname = ''not compressed''\<rparr>,
        WriteFrames block, WaveClose, Print (DataSaved ''channel1.wav'')]"
    and fl: "channel1_wav w' =
       Complete \<lparr>header = \<lparr>nchannels = 1, sampwidth = 1, framerate = py_trunc x,
         nframes = int (length block), comptype = ''NONE'', compname = ''not compressed''\<rparr>,
         frames = block\<rparr>"
    unfolding writer_returns_def by blast
  have run: "run float e = (0, emit RmClose w')"
    unfolding run_single [OF new list single] session_Return [OF acq] sv
    by (rule except_finally_simps)
  have twa: "trace wa = [ResourceManager, ListResources, Print (AvailableResources rs), Print (Connecting r),
            OpenResource r 20000 1024000, Query '':ACQ:SAMP?'', Print (SampleRate (Fin x)),
            Write '':STOP'', Write '':WAV:POIN:MODE RAW'',
            QueryBinaryValues '':WAV:DATA? CHAN1'' ''B'' ''ieee'' False,
            Print (DataSize (length block)), Write '':KEY:FORCE'', ScopeClose]"
    unfolding wa_def by (simp add: trace_emit)
  show "\<exists>rs. calls float e =
           [ResourceManager, ListResources, Print (AvailableResources rs), Print (Connecting r),
            OpenResource r 20000 1024000, Query '':ACQ:SAMP?'', Print (SampleRate (Fin x)),
            Write '':STOP'', Write '':WAV:POIN:MODE RAW'',
            QueryBinaryValues '':WAV:DATA? CHAN1'' ''B'' ''ieee'' False,
            Print (DataSize (length block)), Write '':KEY:FORCE'', ScopeClose,
            WaveOpen ''channel1.wav'' ''wb'',
            SetParams \<lparr>nchannels = 1, sampwidth = 1, framerate = py_trunc x,
              nframes = int (length block), comptype = ''NONE'', compname = ''not compressed''\<rparr>,
            WriteFrames block, WaveClose, Print (DataSaved ''channel1.wav''), RmClose]"
    unfolding calls_def run by (rule exI [of _ rs]) (simp add: trace_emit tr twa)
  show "output_file float e =
           Complete \<lparr>header = \<lparr>nchannels = 1, sampwidth = 1, framerate = py_trunc x,
             nframes = int (length block), comptype = ''NONE'', compname = ''not compressed''\<rparr>,
             frames = block\<rparr>"
    unfolding output_file_def run by (simp add: file_emit fl)
  show "exit_status float e = 0"
    unfolding exit_status_def run by simp
qed

text \<open>The example bench.\<close>

lemma bench_discovered:
  "filter (\<lambda>res. py_in ''USB'' res) rs = [r] \<Longrightarrow> discovered (bench rs reply block) r"
  by (simp add: discovered_def bench_def)

lemma bench_acquisition_returns:
  "float reply \<noteq> None \<Longrightarrow> acquisition_returns float (bench rs reply block) r reply block"
  by (simp add: acquisition_returns_def commands_return_def bench_def)

lemma bench_writer_returns: "writer_returns (bench rs reply block) x block'"
  by (simp add: writer_returns_def bench_def)

lemma bench_output:
  "filter (\<lambda>res. py_in ''USB'' res) rs = [r] \<Longrightarrow> float reply = Some (Fin x) \<Longrightarrow>
   output_file float (bench rs reply block) =
     Complete \<lparr>header = \<lparr>nchannels = 1, sampwidth = 1, framerate = py_trunc x,
       nframes = int (length block), comptype = ''NONE'', compname = ''not compressed''\<rparr>,
       frames = block\<rparr>"
  by (rule run_success(2) [OF bench_discovered bench_acquisition_returns _ bench_writer_returns])
    simp_all

text \<open>How a run that reaches line 37 ends, and how often it closes the session.\<close>

lemma run_session_end:
  assumes new: "rm_new e = Inr ()"
    and list: "rm_list_resources e = Inr rs"
    and single: "filter (\<lambda>res. py_in ''USB'' res) rs = [r]"
    and s: "and_then (acquire float e r)
              (\<lambda>(sample_rate, rawdata_bytes). save e sample_rate rawdata_bytes)
              \<lparr>trace = [ResourceManager, ListResources, Print (AvailableResources rs),
                        Print (Connecting r)],
               channel1_wav = Absent, wave_obj = None\<rparr> = (res, w')"
  shows "\<exists>h. calls float e = trace w' @ h \<and>
             (h = [RmClose] \<and> res = Return () \<or>
              h = [Print VisaIOErrorMsg, RmClose] \<and> res = Raise VisaIOError \<or>
              h = [Print ErrorOccurred, RmClose] \<and> (\<exists>x. res = Raise x \<and> x \<noteq> VisaIOError)) \<and>
             exit_status float e = 0"
proof -
  have run: "run float e = except_finally (res, w')"
    using run_single [OF new list single, of float] s by simp
  have "(\<exists>x. res = Raise x) \<or> res = Return ()"
    using s
  proof (cases rule: session_cases)
    case (Raise x)
    then show ?thesis by simp
  next
    case (Return sr reply block wa)
    from save_result [OF Return(4)] show ?thesis .
  qed
  then show ?thesis
  proof (elim disjE exE)
    fix x assume x: "res = Raise x"
    have "run float e = (0, emit RmClose (emit (Print (if x = VisaIOError then VisaIOErrorMsg
        else ErrorOccurred)) w'))"
      unfolding run x by (rule except_finally_simps)
    then have "calls float e = trace w' @ [Print (if x = VisaIOError then VisaIOErrorMsg
        else ErrorOccurred), RmClose]" "exit_status float e = 0"
      by (simp_all add: calls_def exit_status_def trace_emit)
    with x show ?thesis
      by (cases "x = VisaIOError") simp_all
  next
    assume r: "res = Return ()"
    have "run float e = (0, emit RmClose w')"
      unfolding run r by (rule except_finally_simps)
    then have "calls float e = trace w' @ [RmClose]" "exit_status float e = 0"
      by (simp_all add: calls_def exit_status_def trace_emit)
    with r show ?thesis by simp
  qed
qed

lemma run_session_close_count:
  assumes new: "rm_new e = Inr ()"
    and list: "rm_list_resources e = Inr rs"
    and single: "filter (\<lambda>res. py_in ''USB'' res) rs = [r]"
    and opn: "rm_open_resource e r = Inr ()"
  shows "(count_list (calls float e) ScopeClose = 1) =
         (\<exists>reply block. commands_return float e reply block)"
proof -
  let ?W = "\<lparr>trace = [ResourceManager, ListResources, Print (AvailableResources rs),
                       Print (Connecting r)],
              channel1_wav = Absent, wave_obj = None\<rparr>"
  obtain res w' where s:
    "and_then (acquire float e r)
       (\<lambda>(sample_rate, rawdata_bytes). save e sample_rate rawdata_bytes) ?W = (res, w')"
    by (cases "and_then (acquire float e r)
       (\<lambda>(sample_rate, rawdata_bytes). save e sample_rate rawdata_bytes) ?W")
  from run_session_end [OF new list single s] obtain h where
    c: "calls float e = trace w' @ h" and
    h: "h = [RmClose] \<or> h = [Print VisaIOErrorMsg, RmClose] \<or> h = [Print ErrorOccurred, RmClose]"
    by blast
  from h have h0: "count_list h ScopeClose = 0"
    by (elim disjE) simp_all
  from s show ?thesis
  proof (cases rule: session_cases)
    case (Raise x)
    from acquire_close_count [OF Raise(1) opn] h0 show ?thesis
      unfolding c by simp
  next
    case (Return sr reply block wa)
    from save_calls [OF Return(4)] obtain ts where
      ts: "trace w' = trace wa @ ts" "filter is_session_call ts = []"
      by blast
    from acquire_close_count [OF Return(1) opn] h0 scope_close_quiet [OF ts(2)] show ?thesis
      unfolding c ts(1) by simp
  qed
qed

text \<open>Three runs written out: the read fails, the reply is not numeric, the acquisition returns.\<close>

lemma acquire_read_fails:
  "rm_open_resource e r = Inr () \<Longrightarrow> scope_query e '':ACQ:SAMP?'' = Inr reply \<Longrightarrow>
   float reply = Some sr \<Longrightarrow> scope_write e '':STOP'' = Inr () \<Longrightarrow>
   scope_write e '':WAV:POIN:MODE RAW'' = Inr () \<Longrightarrow>
   scope_query_binary_values e '':WAV:DATA? CHAN1'' = Inl x \<Longrightarrow>
   acquire float e r w =
     (Raise x,
      emit (QueryBinaryValues '':WAV:DATA? CHAN1'' ''B'' ''ieee'' False)
        (emit (Write '':WAV:POIN:MODE RAW'') (emit (Write '':STOP'') (emit (Print (SampleRate sr))
        (emit (Query '':ACQ:SAMP?'') (emit (OpenResource r 20000 1024000) w))))))"
  by (simp add: acquire_def acq_steps)

lemma run_read_fails:
  assumes "discovered e r"
    and "rm_open_resource e r = Inr ()" and "scope_query e '':ACQ:SAMP?'' = Inr reply"
    and "float reply = Some sr" and "scope_write e '':STOP'' = Inr ()"
    and "scope_write e '':WAV:POIN:MODE RAW'' = Inr ()"
    and "scope_query_binary_values e '':WAV:DATA? CHAN1'' = Inl x"
  shows "\<exists>rs. run float e =
     (0, \<lparr>trace = [ResourceManager, ListResources, Print (AvailableResources rs),
            Print (Connecting r), OpenResource r 20000 1024000, Query '':ACQ:SAMP?'',
            Print (SampleRate sr), Write '':STOP'', Write '':WAV:POIN:MODE RAW'',
            QueryBinaryValues '':WAV:DATA? CHAN1'' ''B'' ''ieee'' False,
            Print (if x = VisaIOError then VisaIOErrorMsg else ErrorOccurred), RmClose],
          channel1_wav = Absent, wave_obj = None\<rparr>)"
proof -
  from assms(1) obtain rs where new: "rm_new e = Inr ()" and list: "rm_list_resources e = Inr rs"
    and single: "filter (\<lambda>res. py_in ''USB'' res) rs = [r]"
    by (auto simp: discovered_iff)
  show ?thesis
    unfolding run_single [OF new list single]
      session_Raise [OF acquire_read_fails [where float = float, OF assms(2-)]] except_finally_simps
    by (rule exI [of _ rs]) (simp add: emit_def)
qed

lemma run_parse_fails:
  assumes "discovered e r"
    and "rm_open_resource e r = Inr ()" and "scope_query e '':ACQ:SAMP?'' = Inr reply"
    and "float reply = None"
  shows "\<exists>rs. run float e =
     (0, \<lparr>trace = [ResourceManager, ListResources, Print (AvailableResources rs),
            Print (Connecting r), OpenResource r 20000 1024000, Query '':ACQ:SAMP?'',
            Print ErrorOccurred, RmClose],
          channel1_wav = Absent, wave_obj = None\<rparr>)"
proof -
  from assms(1) obtain rs where new: "rm_new e = Inr ()" and list: "rm_list_resources e = Inr rs"
    and single: "filter (\<lambda>res. py_in ''USB'' res) rs = [r]"
    by (auto simp: discovered_iff)
  show ?thesis
    unfolding run_single [OF new list single]
      session_Raise [OF acquire_parse_fails [where float = float, OF assms(2-)]] except_finally_simps
    by (rule exI [of _ rs]) (simp add: emit_def)
qed

lemma run_acquired:
  assumes d: "discovered e r"
    and a: "acquisition_returns float e r reply block"
    and f: "float reply = Some sr"
  shows "\<exists>rs ts h. calls float e =
           [ResourceManager, ListResources, Print (AvailableResources rs), Print (Connecting r),
            OpenResource r 20000 1024000, Query '':ACQ:SAMP?'', Print (SampleRate sr),
            Write '':STOP'', Write '':WAV:POIN:MODE RAW'',
            QueryBinaryValues '':WAV:DATA? CHAN1'' ''B'' ''ieee'' False,
            Print (DataSize (length block)), Write '':KEY:FORCE'', ScopeClose] @ ts @ h \<and>
           filter is_session_call ts = [] \<and>
           (h = [RmClose] \<or> h = [Print VisaIOErrorMsg, RmClose] \<or> h = [Print ErrorOccurred, RmClose])"
proof -
  from d obtain rs where new: "rm_new e = Inr ()" and list: "rm_list_resources e = Inr rs"
    and single: "filter (\<lambda>res. py_in ''USB'' res) rs = [r]"
    by (auto simp: discovered_iff)
  let ?W = "\<lparr>trace = [ResourceManager, ListResources, Print (AvailableResources rs),
                       Print (Connecting r)],
              channel1_wav = Absent, wave_obj = None\<rparr>"
  define wa where "wa = emit ScopeClose (emit (Write '':KEY:FORCE'') (emit (Print (DataSize (length block)))
        (emit (QueryBinaryValues '':WAV:DATA? CHAN1'' ''B'' ''ieee'' False)
        (emit (Write '':WAV:POIN:MODE RAW'') (emit (Write '':STOP'') (emit (Print (SampleRate sr))
        (emit (Query '':ACQ:SAMP?'') (emit (OpenResource r 20000 1024000) ?W))))))))"
  have acq: "acquire float e r ?W = (Return (sr, block), wa)"
    unfolding wa_def by (rule acquire_returns [OF a f])
  have twa: "trace wa = [ResourceManager, ListResources, Print (AvailableResources rs), Print (Connecting r),
            OpenResource r 20000 1024000, Query '':ACQ:SAMP?'', Print (SampleRate sr),
            Write '':STOP'', Write '':WAV:POIN:MODE RAW'',
            QueryBinaryValues '':WAV:DATA? CHAN1'' ''B'' ''ieee'' False,
            Print (DataSize (length block)), Write '':KEY:FORCE'', ScopeClose]"
    unfolding wa_def by (simp add: trace_emit)
  obtain res w' where sv: "save e sr block wa = (res, w')"
    by (cases "save e sr block wa")
  from save_calls [OF sv] obtain ts where
    ts: "trace w' = trace wa @ ts" "filter is_session_call ts = []"
    by blast
  have s: "and_then (acquire float e r)
       (\<lambda>(sample_rate, rawdata_bytes). save e sample_rate rawdata_bytes) ?W = (res, w')"
    unfolding session_Return [OF acq] by (rule sv)
  from run_session_end [OF new list single s] obtain h where
    c: "calls float e = trace w' @ h" and
    h: "h = [RmClose] \<or> h = [Print VisaIOErrorMsg, RmClose] \<or> h = [Print ErrorOccurred, RmClose]"
    by blast
  have "calls float e =
           [ResourceManager, ListResources, Print (AvailableResources rs), Print (Connecting r),
            OpenResource r 20000 1024000, Query '':ACQ:SAMP?'', Print (SampleRate sr),
            Write '':STOP'', Write '':WAV:POIN:MODE RAW'',
            QueryBinaryValues '':WAV:DATA? CHAN1'' ''B'' ''ieee'' False,
            Print (DataSize (length block)), Write '':KEY:FORCE'', ScopeClose] @ ts @ h"
    unfolding c ts(1) twa by simp
  with ts(2) h show ?thesis
    by blast
qed

lemma example_discovered:
  "discovered read_times_out usb_scope" "discovered text_reply usb_scope"
  by (simp_all add: discovered_def read_times_out_def text_reply_def bench_def usb_scope_def)

section \<open>The claims\<close>

text \<open>
  C2. When the provider starts and the enumeration returns a list in which the number of
  USB-matching identifiers is not one (none, or more than one), the run ends with exit
  status -1, after printing the list of the matching identifiers; no session is opened,
  no command is sent and the output file is not touched.
\<close>

theorem ambiguous_enumeration_is_fatal:
  assumes "rm_new e = Inr ()"
    and "rm_list_resources e = Inr rs"
    and "length (filter (\<lambda>res. py_in ''USB'' res) rs) \<noteq> 1"
  shows "exit_status float e = - 1 \<and>
         Print (BadInstrumentList (filter (\<lambda>res. py_in ''USB'' res) rs)) \<in> set (calls float e) \<and>
         sessions_opened (calls float e) = [] \<and>
         commands_sent (calls float e) = [] \<and>
         output_file float e = Absent"
  by (simp add: exit_status_def calls_def output_file_def run_ambiguous [OF assms])

theorem ambiguous_enumeration_is_fatal_witness:
  "exit_status float_table (bench [serial_port] ''1000000.0'' []) = - 1 \<and>
   Print (BadInstrumentList []) \<in> set (calls float_table (bench [serial_port] ''1000000.0'' [])) \<and>
   sessions_opened (calls float_table (bench [serial_port] ''1000000.0'' [])) = [] \<and>
   exit_status float_table (bench [usb_scope, serial_port, usb_scope] ''1000000.0'' []) = - 1 \<and>
   Print (BadInstrumentList [usb_scope, usb_scope])
     \<in> set (calls float_table (bench [usb_scope, serial_port, usb_scope] ''1000000.0'' [])) \<and>
   sessions_opened (calls float_table (bench [usb_scope, serial_port, usb_scope] ''1000000.0'' [])) = []"
proof -
  have none: "filter (\<lambda>res. py_in ''USB'' res) [serial_port] = []"
    by (simp add: serial_port_def)
  have two:
    "filter (\<lambda>res. py_in ''USB'' res) [usb_scope, serial_port, usb_scope] = [usb_scope, usb_scope]"
    by (simp add: serial_port_def usb_scope_def)
  have new: "rm_new (bench rs reply block) = Inr ()" for rs reply block
    by (simp add: bench_def)
  have list: "rm_list_resources (bench rs reply block) = Inr rs" for rs reply block
    by (simp add: bench_def)
  have "length (filter (\<lambda>res. py_in ''USB'' res) [serial_port]) \<noteq> 1"
    by (simp only: none) simp
  note a = ambiguous_enumeration_is_fatal
    [OF new [of "[serial_port]" "''1000000.0''" "[]"] list this, of float_table]
  have "length (filter (\<lambda>res. py_in ''USB'' res) [usb_scope, serial_port, usb_scope]) \<noteq> 1"
    by (simp only: two) simp
  note b = ambiguous_enumeration_is_fatal
    [OF new [of "[usb_scope, serial_port, usb_scope]" "''1000000.0''" "[]"] list this, of float_table]
  from a b show ?thesis
    by (simp only: none two)
qed

text \<open>
  C3. When the provider starts and the enumeration returns a list with exactly one
  USB-matching identifier \<open>r\<close>, the script opens exactly one session, on \<open>r\<close>, with the
  timeout 20000 and the chunk size 1024000, whatever the device answers afterwards.
\<close>

theorem single_usb_resource_is_opened:
  assumes "rm_new e = Inr ()"
    and "rm_list_resources e = Inr rs"
    and "filter (\<lambda>res. py_in ''USB'' res) rs = [r]"
  shows "sessions_opened (calls float e) = [(r, 20000, 1024000)]"
proof -
  from run_session_calls [OF assms, of float] obtain ta ts h where
    c: "calls float e =
          [ResourceManager, ListResources, Print (AvailableResources rs), Print (Connecting r)]
            @ ta @ ts @ h"
    and ta: "sessions_opened ta = [(r, 20000, 1024000)]"
    and ts: "filter is_session_call ts = []"
    and h: "h = [RmClose] \<or> h = [Print VisaIOErrorMsg, RmClose] \<or> h = [Print ErrorOccurred, RmClose]"
    by blast
  from h have "sessions_opened h = []"
    by (elim disjE) simp_all
  with ta sessions_opened_quiet [OF ts] show ?thesis
    unfolding c by (simp add: sessions_opened_append)
qed

theorem single_usb_resource_is_opened_witness:
  "sessions_opened (calls float_table (bench [serial_port, usb_scope] ''1000000.0'' [1, 2, 3]))
     = [(usb_scope, 20000, 1024000)]"
proof -
  have new: "rm_new (bench [serial_port, usb_scope] ''1000000.0'' [1, 2, 3]) = Inr ()"
    by (simp add: bench_def)
  have list: "rm_list_resources (bench [serial_port, usb_scope] ''1000000.0'' [1, 2, 3])
      = Inr [serial_port, usb_scope]"
    by (simp add: bench_def)
  have single: "filter (\<lambda>res. py_in ''USB'' res) [serial_port, usb_scope] = [usb_scope]"
    by (simp add: serial_port_def usb_scope_def)
  show ?thesis
    by (rule single_usb_resource_is_opened [OF new list single])
qed

text \<open>
  C5 (the release of the bus-access handle, exactly once on every exit path). With no
  USB-matching identifier in the enumeration, the script calls \<^verbatim>\<open>rm.close()\<close> at line 30
  and, because \<^verbatim>\<open>sys.exit\<close> leaves through the \<^verbatim>\<open>finally\<close> clause, again at line 83: the
  handle is released twice on this path.
\<close>

theorem release_called_twice_without_usb_resource:
  "calls float_table (bench [serial_port] ''1000000.0'' []) =
     [ResourceManager, ListResources, Print (AvailableResources [serial_port]),
      Print (BadInstrumentList []), RmClose, RmClose] \<and>
   count_list (calls float_table (bench [serial_port] ''1000000.0'' [])) RmClose = 2"
proof -
  have new: "rm_new (bench [serial_port] ''1000000.0'' []) = Inr ()"
    by (simp add: bench_def)
  have list: "rm_list_resources (bench [serial_port] ''1000000.0'' []) = Inr [serial_port]"
    by (simp add: bench_def)
  have none: "filter (\<lambda>res. py_in ''USB'' res) [serial_port] = []"
    by (simp add: serial_port_def)
  have "length (filter (\<lambda>res. py_in ''USB'' res) [serial_port]) \<noteq> 1"
    by (simp only: none) simp
  note run = run_ambiguous [OF new list this, of float_table, unfolded none]
  show ?thesis
    unfolding calls_def run by simp
qed

text \<open>
  C1. Whenever the run leaves a complete container in \<^verbatim>\<open>channel1.wav\<close>, the sample-rate
  query returned a string that \<^verbatim>\<open>float\<close> parses as 1000000.0 and the binary-block read
  returned a block of N bytes, the container has 1 channel, sample width 1, compression
  type NONE, frame rate 1000000, frame count N, and its payload is the block itself.
\<close>

theorem written_container_is_the_block:
  assumes "output_file float e = Complete c"
    and "scope_query e '':ACQ:SAMP?'' = Inr reply"
    and "float reply = Some (Fin 1000000)"
    and "scope_query_binary_values e '':WAV:DATA? CHAN1'' = Inr block"
  shows "nchannels (header c) = 1 \<and> sampwidth (header c) = 1 \<and> comptype (header c) = ''NONE'' \<and>
         framerate (header c) = 1000000 \<and> nframes (header c) = int (length block) \<and>
         frames c = block"
proof -
  from written_container [OF assms(1)] obtain r reply' block' x where
    a: "acquisition_returns float e r reply' block'"
    and f: "float reply' = Some (Fin x)"
    and c: "c = \<lparr>header = \<lparr>nchannels = 1, sampwidth = 1, framerate = py_trunc x,
                 nframes = int (length block'), comptype = ''NONE'', compname = ''not compressed''\<rparr>,
                frames = block'\<rparr>"
    by blast
  from a assms(2,4) have "reply' = reply" "block' = block"
    by (simp_all add: acquisition_returns_def commands_return_def)
  with f assms(3) have "x = 1000000"
    by simp
  then have "py_trunc x = 1000000"
    by (simp add: py_trunc_def)
  with c \<open>block' = block\<close> show ?thesis
    by simp
qed

theorem written_container_is_the_block_witness:
  "output_file float_table (bench [usb_scope] ''1000000.0'' [1, 2, 3]) =
     Complete \<lparr>header = \<lparr>nchannels = 1, sampwidth = 1, framerate = 1000000, nframes = 3,
       comptype = ''NONE'', compname = ''not compressed''\<rparr>, frames = [1, 2, 3]\<rparr> \<and>
   scope_query (bench [usb_scope] ''1000000.0'' [1, 2, 3]) '':ACQ:SAMP?'' = Inr ''1000000.0'' \<and>
   float_table ''1000000.0'' = Some (Fin 1000000) \<and>
   scope_query_binary_values (bench [usb_scope] ''1000000.0'' [1, 2, 3]) '':WAV:DATA? CHAN1''
     = Inr [1, 2, 3] \<and>
   framerate (header \<lparr>header = \<lparr>nchannels = 1, sampwidth = 1, framerate = 1000000, nframes = 3,
       comptype = ''NONE'', compname = ''not compressed''\<rparr>, frames = [1, 2, 3 :: byte]\<rparr>) = 1000000 \<and>
   nframes (header \<lparr>header = \<lparr>nchannels = 1, sampwidth = 1, framerate = 1000000, nframes = 3,
       comptype = ''NONE'', compname = ''not compressed''\<rparr>, frames = [1, 2, 3 :: byte]\<rparr>)
     = int (length [1, 2, 3 :: byte])"
proof -
  have single: "filter (\<lambda>res. py_in ''USB'' res) [usb_scope] = [usb_scope]"
    by (simp add: usb_scope_def)
  have f: "float_table ''1000000.0'' = Some (Fin 1000000)"
    by (simp add: float_table_def)
  have out: "output_file float_table (bench [usb_scope] ''1000000.0'' [1, 2, 3]) =
     Complete \<lparr>header = \<lparr>nchannels = 1, sampwidth = 1, framerate = 1000000, nframes = 3,
       comptype = ''NONE'', compname = ''not compressed''\<rparr>, frames = [1, 2, 3]\<rparr>"
    using bench_output
      [where float = float_table and reply = "''1000000.0''" and block = "[1, 2, 3]", OF single f]
    by (simp add: py_trunc_def)
  have q: "scope_query (bench [usb_scope] ''1000000.0'' [1, 2, 3]) '':ACQ:SAMP?'' = Inr ''1000000.0''"
    by (simp add: bench_def)
  have b: "scope_query_binary_values (bench [usb_scope] ''1000000.0'' [1, 2, 3]) '':WAV:DATA? CHAN1''
     = Inr [1, 2, 3]"
    by (simp add: bench_def)
  from written_container_is_the_block [OF out q f b] out q f b show ?thesis
    by simp
qed

text \<open>
  C10 (two runs with the same enumeration, the same sample-rate reply and the same block
  write identical bytes). It does not hold as stated: what is written also depends on
  the calls that follow the read. With the same list, reply and block, a run in which
  \<^verbatim>\<open>:KEY:FORCE\<close> times out writes no file, and the run in which it returns writes the
  container.
\<close>

theorem same_replies_different_files:
  "rm_list_resources (bench [usb_scope] ''1000000.0'' [1, 2, 3]) = Inr [usb_scope] \<and>
   rm_list_resources key_force_fails = Inr [usb_scope] \<and>
   scope_query (bench [usb_scope] ''1000000.0'' [1, 2, 3]) '':ACQ:SAMP?'' = Inr ''1000000.0'' \<and>
   scope_query key_force_fails '':ACQ:SAMP?'' = Inr ''1000000.0'' \<and>
   scope_query_binary_values (bench [usb_scope] ''1000000.0'' [1, 2, 3]) '':WAV:DATA? CHAN1''
     = Inr [1, 2, 3] \<and>
   scope_query_binary_values key_force_fails '':WAV:DATA? CHAN1'' = Inr [1, 2, 3] \<and>
   output_file float_table (bench [usb_scope] ''1000000.0'' [1, 2, 3]) =
     Complete \<lparr>header = \<lparr>nchannels = 1, sampwidth = 1, framerate = 1000000, nframes = 3,
       comptype = ''NONE'', compname = ''not compressed''\<rparr>, frames = [1, 2, 3]\<rparr> \<and>
   output_file float_table key_force_fails = Absent"
proof -
  have single: "filter (\<lambda>res. py_in ''USB'' res) [usb_scope] = [usb_scope]"
    by (simp add: usb_scope_def)
  have f: "float_table ''1000000.0'' = Some (Fin 1000000)"
    by (simp add: float_table_def)
  have out1: "output_file float_table (bench [usb_scope] ''1000000.0'' [1, 2, 3]) =
     Complete \<lparr>header = \<lparr>nchannels = 1, sampwidth = 1, framerate = 1000000, nframes = 3,
       comptype = ''NONE'', compname = ''not compressed''\<rparr>, frames = [1, 2, 3]\<rparr>"
    using bench_output
      [where float = float_table and reply = "''1000000.0''" and block = "[1, 2, 3]", OF single f]
    by (simp add: py_trunc_def)
  have new: "rm_new key_force_fails = Inr ()"
    and l2: "rm_list_resources key_force_fails = Inr [usb_scope]"
    and q2: "scope_query key_force_fails '':ACQ:SAMP?'' = Inr ''1000000.0''"
    and b2: "scope_query_binary_values key_force_fails '':WAV:DATA? CHAN1'' = Inr [1, 2, 3]"
    and k: "scope_write key_force_fails '':KEY:FORCE'' = Inl VisaIOError"
    by (simp_all add: key_force_fails_def bench_def)
  have l1: "rm_list_resources (bench [usb_scope] ''1000000.0'' [1, 2, 3]) = Inr [usb_scope]"
    and q1: "scope_query (bench [usb_scope] ''1000000.0'' [1, 2, 3]) '':ACQ:SAMP?'' = Inr ''1000000.0''"
    and b1: "scope_query_binary_values (bench [usb_scope] ''1000000.0'' [1, 2, 3]) '':WAV:DATA? CHAN1''
      = Inr [1, 2, 3]"
    by (simp_all add: bench_def)
  from k have "\<not> acquisition_returns float_table key_force_fails usb_scope reply block"
    for reply block
    by (simp add: acquisition_returns_def commands_return_def)
  with run_session_file [OF new l2 single, of float_table]
  have out2: "output_file float_table key_force_fails = Absent"
    by blast
  from l1 l2 q1 q2 b1 b2 out1 out2 show ?thesis
    by simp
qed

text \<open>
  C10, as the code has it. A complete container is written exactly when the discovery
  finds one USB resource and every call of lines 37 to 71 returns, and it is then the
  container made of the truncated sample rate and of the block. So for two runs in which
  the sample-rate query returns the same string and the binary-block read the same bytes,
  and which both write the file completely, the containers are equal, whatever the
  enumeration returned in either run.
\<close>

theorem written_container_depends_on_replies_only:
  "(output_file float e = Complete c \<longleftrightarrow>
      (\<exists>r reply block x.
         discovered e r \<and> acquisition_returns float e r reply block \<and>
         float reply = Some (Fin x) \<and> writer_returns e x block \<and>
         c = \<lparr>header = \<lparr>nchannels = 1, sampwidth = 1, framerate = py_trunc x,
               nframes = int (length block), comptype = ''NONE'', compname = ''not compressed''\<rparr>,
              frames = block\<rparr>)) \<and>
   (scope_query e1 '':ACQ:SAMP?'' = Inr reply1 \<and> scope_query e2 '':ACQ:SAMP?'' = Inr reply1 \<and>
    scope_query_binary_values e1 '':WAV:DATA? CHAN1'' = Inr block1 \<and>
    scope_query_binary_values e2 '':WAV:DATA? CHAN1'' = Inr block1 \<and>
    output_file float e1 = Complete c1 \<and> output_file float e2 = Complete c2 \<longrightarrow> c1 = c2)"
proof (intro conjI iffI impI)
  assume "output_file float e = Complete c"
  from written_container [OF this]
  show "\<exists>r reply block x.
         discovered e r \<and> acquisition_returns float e r reply block \<and>
         float reply = Some (Fin x) \<and> writer_returns e x block \<and>
         c = \<lparr>header = \<lparr>nchannels = 1, sampwidth = 1, framerate = py_trunc x,
               nframes = int (length block), comptype = ''NONE'', compname = ''not compressed''\<rparr>,
              frames = block\<rparr>" .
next
  assume "\<exists>r reply block x.
         discovered e r \<and> acquisition_returns float e r reply block \<and>
         float reply = Some (Fin x) \<and> writer_returns e x block \<and>
         c = \<lparr>header = \<lparr>nchannels = 1, sampwidth = 1, framerate = py_trunc x,
               nframes = int (length block), comptype = ''NONE'', compname = ''not compressed''\<rparr>,
              frames = block\<rparr>"
  then obtain r reply block x where d: "discovered e r"
    and a: "acquisition_returns float e r reply block"
    and f: "float reply = Some (Fin x)" and w: "writer_returns e x block"
    and c: "c = \<lparr>header = \<lparr>nchannels = 1, sampwidth = 1, framerate = py_trunc x,
               nframes = int (length block), comptype = ''NONE'', compname = ''not compressed''\<rparr>,
              frames = block\<rparr>"
    by blast
  from run_success(2) [OF d a f w] c show "output_file float e = Complete c"
    by simp
next
  assume h: "scope_query e1 '':ACQ:SAMP?'' = Inr reply1 \<and> scope_query e2 '':ACQ:SAMP?'' = Inr reply1 \<and>
    scope_query_binary_values e1 '':WAV:DATA? CHAN1'' = Inr block1 \<and>
    scope_query_binary_values e2 '':WAV:DATA? CHAN1'' = Inr block1 \<and>
    output_file float e1 = Complete c1 \<and> output_file float e2 = Complete c2"
  have *: "\<exists>x. float reply1 = Some (Fin x) \<and>
      c' = \<lparr>header = \<lparr>nchannels = 1, sampwidth = 1, framerate = py_trunc x,
                 nframes = int (length block1), comptype = ''NONE'', compname = ''not compressed''\<rparr>,
                frames = block1\<rparr>"
    if out: "output_file float e' = Complete c'"
      and q: "scope_query e' '':ACQ:SAMP?'' = Inr reply1"
      and b: "scope_query_binary_values e' '':WAV:DATA? CHAN1'' = Inr block1"
    for e' c'
  proof -
    from written_container [OF out] obtain r reply' block' x' where
      a: "acquisition_returns float e' r reply' block'"
      and f: "float reply' = Some (Fin x')"
      and c: "c' = \<lparr>header = \<lparr>nchannels = 1, sampwidth = 1, framerate = py_trunc x',
                 nframes = int (length block'), comptype = ''NONE'', compname = ''not compressed''\<rparr>,
                frames = block'\<rparr>"
      by blast
    from a q b have "reply' = reply1" "block' = block1"
      by (simp_all add: acquisition_returns_def commands_return_def)
    with f c show ?thesis by simp
  qed
  from h * [of e1 c1] * [of e2 c2] show "c1 = c2"
    by auto
qed

theorem written_container_depends_on_replies_only_witness:
  "output_file float_table (bench [usb_scope] ''1000000.0'' [1, 2, 3]) =
     Complete \<lparr>header = \<lparr>nchannels = 1, sampwidth = 1, framerate = 1000000, nframes = 3,
       comptype = ''NONE'', compname = ''not compressed''\<rparr>, frames = [1, 2, 3]\<rparr> \<and>
   output_file float_table (bench [serial_port, usb_scope] ''1000000.0'' [1, 2, 3]) =
     Complete \<lparr>header = \<lparr>nchannels = 1, sampwidth = 1, framerate = 1000000, nframes = 3,
       comptype = ''NONE'', compname = ''not compressed''\<rparr>, frames = [1, 2, 3]\<rparr> \<and>
   rm_list_resources (bench [usb_scope] ''1000000.0'' [1, 2, 3])
     \<noteq> rm_list_resources (bench [serial_port, usb_scope] ''1000000.0'' [1, 2, 3]) \<and>
   scope_query (bench [usb_scope] ''1000000.0'' [1, 2, 3]) '':ACQ:SAMP?'' = Inr ''1000000.0'' \<and>
   scope_query (bench [serial_port, usb_scope] ''1000000.0'' [1, 2, 3]) '':ACQ:SAMP?''
     = Inr ''1000000.0'' \<and>
   scope_query_binary_values (bench [usb_scope] ''1000000.0'' [1, 2, 3]) '':WAV:DATA? CHAN1''
     = Inr [1, 2, 3] \<and>
   scope_query_binary_values (bench [serial_port, usb_scope] ''1000000.0'' [1, 2, 3])
     '':WAV:DATA? CHAN1'' = Inr [1, 2, 3] \<and>
   output_file float_table (bench [usb_scope] ''1000000.0'' [1, 2, 3]) =
     output_file float_table (bench [serial_port, usb_scope] ''1000000.0'' [1, 2, 3]) \<and>
   (\<exists>r reply block x.
      discovered (bench [usb_scope] ''1000000.0'' [1, 2, 3]) r \<and>
      acquisition_returns float_table (bench [usb_scope] ''1000000.0'' [1, 2, 3]) r reply block \<and>
      float_table reply = Some (Fin x) \<and>
      writer_returns (bench [usb_scope] ''1000000.0'' [1, 2, 3]) x block)"
proof -
  have single1: "filter (\<lambda>res. py_in ''USB'' res) [usb_scope] = [usb_scope]"
    by (simp add: usb_scope_def)
  have single2: "filter (\<lambda>res. py_in ''USB'' res) [serial_port, usb_scope] = [usb_scope]"
    by (simp add: usb_scope_def serial_port_def)
  have f: "float_table ''1000000.0'' = Some (Fin 1000000)"
    by (simp add: float_table_def)
  have out1: "output_file float_table (bench [usb_scope] ''1000000.0'' [1, 2, 3]) =
     Complete \<lparr>header = \<lparr>nchannels = 1, sampwidth = 1, framerate = 1000000, nframes = 3,
       comptype = ''NONE'', compname = ''not compressed''\<rparr>, frames = [1, 2, 3]\<rparr>"
    using bench_output
      [where float = float_table and reply = "''1000000.0''" and block = "[1, 2, 3]", OF single1 f]
    by (simp add: py_trunc_def)
  have out2: "output_file float_table (bench [serial_port, usb_scope] ''1000000.0'' [1, 2, 3]) =
     Complete \<lparr>header = \<lparr>nchannels = 1, sampwidth = 1, framerate = 1000000, nframes = 3,
       comptype = ''NONE'', compname = ''not compressed''\<rparr>, frames = [1, 2, 3]\<rparr>"
    using bench_output
      [where float = float_table and reply = "''1000000.0''" and block = "[1, 2, 3]", OF single2 f]
    by (simp add: py_trunc_def)
  have ne: "rm_list_resources (bench [usb_scope] ''1000000.0'' [1, 2, 3])
     \<noteq> rm_list_resources (bench [serial_port, usb_scope] ''1000000.0'' [1, 2, 3])"
    by (simp add: bench_def)
  have q1: "scope_query (bench [usb_scope] ''1000000.0'' [1, 2, 3]) '':ACQ:SAMP?'' = Inr ''1000000.0''"
    and q2: "scope_query (bench [serial_port, usb_scope] ''1000000.0'' [1, 2, 3]) '':ACQ:SAMP?''
      = Inr ''1000000.0''"
    and b1: "scope_query_binary_values (bench [usb_scope] ''1000000.0'' [1, 2, 3]) '':WAV:DATA? CHAN1''
      = Inr [1, 2, 3]"
    and b2: "scope_query_binary_values (bench [serial_port, usb_scope] ''1000000.0'' [1, 2, 3])
      '':WAV:DATA? CHAN1'' = Inr [1, 2, 3]"
    by (simp_all add: bench_def)
  note t = written_container_depends_on_replies_only
    [where float = float_table and e = "bench [usb_scope] ''1000000.0'' [1, 2, 3]"
       and ?e1.0 = "bench [usb_scope] ''1000000.0'' [1, 2, 3]"
       and ?e2.0 = "bench [serial_port, usb_scope] ''1000000.0'' [1, 2, 3]"
       and c = "\<lparr>header = \<lparr>nchannels = 1, sampwidth = 1, framerate = 1000000, nframes = 3,
         comptype = ''NONE'', compname = ''not compressed''\<rparr>, frames = [1, 2, 3]\<rparr>"]
  from t out1 have "\<exists>r reply block x.
      discovered (bench [usb_scope] ''1000000.0'' [1, 2, 3]) r \<and>
      acquisition_returns float_table (bench [usb_scope] ''1000000.0'' [1, 2, 3]) r reply block \<and>
      float_table reply = Some (Fin x) \<and>
      writer_returns (bench [usb_scope] ''1000000.0'' [1, 2, 3]) x block"
    by blast
  moreover
  obtain c1 c2 where c: "output_file float_table (bench [usb_scope] ''1000000.0'' [1, 2, 3]) = Complete c1"
    "output_file float_table (bench [serial_port, usb_scope] ''1000000.0'' [1, 2, 3]) = Complete c2"
    using out1 out2 by blast
  from written_container_depends_on_replies_only
    [where float = float_table and ?e1.0 = "bench [usb_scope] ''1000000.0'' [1, 2, 3]"
       and ?e2.0 = "bench [serial_port, usb_scope] ''1000000.0'' [1, 2, 3]"
       and ?reply1.0 = "''1000000.0''" and ?block1.0 = "[1, 2, 3]" and ?c1.0 = c1 and ?c2.0 = c2]
    q1 q2 b1 b2 c
  have "c1 = c2"
    by blast
  with c have "output_file float_table (bench [usb_scope] ''1000000.0'' [1, 2, 3]) =
     output_file float_table (bench [serial_port, usb_scope] ''1000000.0'' [1, 2, 3])"
    by simp
  ultimately show ?thesis
    using out1 out2 ne q1 q2 b1 b2 by blast
qed



text \<open>
  C8. In every run in which the whole acquisition (lines 37 to 52) returns, the
  instrument receives exactly the five command strings, in the order of the source, and
  the reply to the first one is parsed by \<^verbatim>\<open>float\<close> (the parsed value is printed). When the
  reply is not numeric, the parse failure ends the acquisition: only the first command
  was sent, the failure is printed by the handler of line 80, no file is written and the
  exit status is 0.
\<close>

theorem command_sequence:
  assumes "discovered e r"
  shows "(acquisition_returns float e r reply block \<longrightarrow>
            commands_sent (calls float e) =
              ['':ACQ:SAMP?'', '':STOP'', '':WAV:POIN:MODE RAW'', '':WAV:DATA? CHAN1'',
               '':KEY:FORCE''] \<and>
            (\<exists>sr. float reply = Some sr \<and> Print (SampleRate sr) \<in> set (calls float e))) \<and>
         (rm_open_resource e r = Inr () \<and> scope_query e '':ACQ:SAMP?'' = Inr reply \<and>
          float reply = None \<longrightarrow>
            commands_sent (calls float e) = ['':ACQ:SAMP?''] \<and>
            Print ErrorOccurred \<in> set (calls float e) \<and>
            output_file float e = Absent \<and> exit_status float e = 0)"
proof (intro conjI impI)
  assume a: "acquisition_returns float e r reply block"
  then obtain sr where f: "float reply = Some sr"
    by (auto simp: acquisition_returns_def commands_return_def)
  from run_acquired [OF assms a f] obtain rs ts h where
    c: "calls float e =
           [ResourceManager, ListResources, Print (AvailableResources rs), Print (Connecting r),
            OpenResource r 20000 1024000, Query '':ACQ:SAMP?'', Print (SampleRate sr),
            Write '':STOP'', Write '':WAV:POIN:MODE RAW'',
            QueryBinaryValues '':WAV:DATA? CHAN1'' ''B'' ''ieee'' False,
            Print (DataSize (length block)), Write '':KEY:FORCE'', ScopeClose] @ ts @ h"
    and ts: "filter is_session_call ts = []"
    and h: "h = [RmClose] \<or> h = [Print VisaIOErrorMsg, RmClose] \<or> h = [Print ErrorOccurred, RmClose]"
    by blast
  from h have "commands_sent h = []"
    by (elim disjE) simp_all
  with commands_sent_quiet [OF ts]
  show "commands_sent (calls float e) =
      ['':ACQ:SAMP?'', '':STOP'', '':WAV:POIN:MODE RAW'', '':WAV:DATA? CHAN1'', '':KEY:FORCE'']"
    unfolding c by (simp add: commands_sent_append)
  have "Print (SampleRate sr) \<in> set (calls float e)"
    unfolding c by simp
  with f show "\<exists>sr. float reply = Some sr \<and> Print (SampleRate sr) \<in> set (calls float e)"
    by blast
next
  assume p: "rm_open_resource e r = Inr () \<and> scope_query e '':ACQ:SAMP?'' = Inr reply \<and>
    float reply = None"
  then have "rm_open_resource e r = Inr ()" "scope_query e '':ACQ:SAMP?'' = Inr reply"
    "float reply = None"
    by simp_all
  from run_parse_fails [where float = float, OF assms this] obtain rs where
    run: "run float e =
     (0, \<lparr>trace = [ResourceManager, ListResources, Print (AvailableResources rs),
            Print (Connecting r), OpenResource r 20000 1024000, Query '':ACQ:SAMP?'',
            Print ErrorOccurred, RmClose],
          channel1_wav = Absent, wave_obj = None\<rparr>)"
    by blast
  show "commands_sent (calls float e) = ['':ACQ:SAMP?'']"
    unfolding calls_def run by simp
  show "Print ErrorOccurred \<in> set (calls float e)"
    unfolding calls_def run by simp
  show "output_file float e = Absent"
    unfolding output_file_def run by simp
  show "exit_status float e = 0"
    unfolding exit_status_def run by simp
qed

theorem command_sequence_witness:
  "discovered (bench [usb_scope] ''1000000.0'' [1, 2, 3]) usb_scope \<and>
   acquisition_returns float_table (bench [usb_scope] ''1000000.0'' [1, 2, 3]) usb_scope
     ''1000000.0'' [1, 2, 3] \<and>
   commands_sent (calls float_table (bench [usb_scope] ''1000000.0'' [1, 2, 3])) =
     ['':ACQ:SAMP?'', '':STOP'', '':WAV:POIN:MODE RAW'', '':WAV:DATA? CHAN1'', '':KEY:FORCE''] \<and>
   Print (SampleRate (Fin 1000000)) \<in> set (calls float_table (bench [usb_scope] ''1000000.0'' [1, 2, 3])) \<and>
   discovered text_reply usb_scope \<and>
   rm_open_resource text_reply usb_scope = Inr () \<and>
   scope_query text_reply '':ACQ:SAMP?'' = Inr ''no signal'' \<and>
   float_table ''no signal'' = None \<and>
   commands_sent (calls float_table text_reply) = ['':ACQ:SAMP?''] \<and>
   Print ErrorOccurred \<in> set (calls float_table text_reply) \<and>
   output_file float_table text_reply = Absent \<and>
   exit_status float_table text_reply = 0"
proof -
  have single: "filter (\<lambda>res. py_in ''USB'' res) [usb_scope] = [usb_scope]"
    by (simp add: usb_scope_def)
  have f: "float_table ''1000000.0'' = Some (Fin 1000000)"
    by (simp add: float_table_def)
  note d = bench_discovered [OF single, of "''1000000.0''" "[1, 2, 3]"]
  have a: "acquisition_returns float_table (bench [usb_scope] ''1000000.0'' [1, 2, 3]) usb_scope
      ''1000000.0'' [1, 2, 3]"
    by (rule bench_acquisition_returns) (simp add: f)
  have o: "rm_open_resource text_reply usb_scope = Inr ()"
    and q: "scope_query text_reply '':ACQ:SAMP?'' = Inr ''no signal''"
    by (simp_all add: text_reply_def bench_def)
  have n: "float_table ''no signal'' = None"
    by (simp add: float_table_def)
  from command_sequence [OF d, of float_table "''1000000.0''" "[1, 2, 3]"]
    command_sequence [OF example_discovered(2), of float_table "''no signal''"]
    d a f o q n example_discovered(2)
  show ?thesis
    by simp
qed

text \<open>
  C4. The output file is touched only after the whole acquisition has returned: a run
  that calls the \<^verbatim>\<open>wave\<close> writer, or leaves the file other than absent, is a run in which
  the discovery found one resource and every step of lines 37 to 52 returned. And when,
  after a successful initialization, the enumeration raises, or a device step up to and
  including the binary-block read raises, no output file is created, the writer is never
  called, and \<^verbatim>\<open>rm.close()\<close> is called (once, as the last call of the run).
\<close>

theorem file_only_after_acquisition:
  "(filter is_wave_call (calls float e) \<noteq> [] \<or> output_file float e \<noteq> Absent \<longrightarrow>
      (\<exists>r reply block. discovered e r \<and> acquisition_returns float e r reply block)) \<and>
   (rm_new e = Inr () \<and>
    (isl (rm_list_resources e) \<or> (\<exists>r. discovered e r \<and> fails_by_read e r)) \<longrightarrow>
      output_file float e = Absent \<and> filter is_wave_call (calls float e) = [] \<and>
      count_list (calls float e) RmClose = 1 \<and> last (calls float e) = RmClose)"
proof (intro conjI impI)
  assume touched: "filter is_wave_call (calls float e) \<noteq> [] \<or> output_file float e \<noteq> Absent"
  show "\<exists>r reply block. discovered e r \<and> acquisition_returns float e r reply block"
  proof (cases rule: run_paths [of e])
    case (init_fails x)
    then have "filter is_wave_call (calls float e) = [] \<and> output_file float e = Absent"
      by (cases "x = LibraryError")
        (simp_all add: calls_def output_file_def run_init_library run_init_other)
    with touched show ?thesis by simp
  next
    case (list_fails x)
    then have "filter is_wave_call (calls float e) = [] \<and> output_file float e = Absent"
      by (simp add: calls_def output_file_def run_list_fails)
    with touched show ?thesis by simp
  next
    case (ambiguous rs)
    then have "filter is_wave_call (calls float e) = [] \<and> output_file float e = Absent"
      by (simp add: calls_def output_file_def run_ambiguous)
    with touched show ?thesis by simp
  next
    case (single rs r)
    then have d: "discovered e r"
      by (auto simp: discovered_iff)
    from run_session_calls [OF single, of float] obtain ta ts h where
      c: "calls float e =
            [ResourceManager, ListResources, Print (AvailableResources rs), Print (Connecting r)]
              @ ta @ ts @ h"
      and ta: "filter is_wave_call ta = []"
      and ts: "ts \<noteq> [] \<longrightarrow> (\<exists>reply block. acquisition_returns float e r reply block)"
      and h: "h = [RmClose] \<or> h = [Print VisaIOErrorMsg, RmClose] \<or> h = [Print ErrorOccurred, RmClose]"
      by blast
    from h have hw: "filter is_wave_call h = []"
      by (elim disjE) simp_all
    from touched show ?thesis
    proof
      assume "filter is_wave_call (calls float e) \<noteq> []"
      with ta hw have "ts \<noteq> []"
        unfolding c by auto
      with ts d show ?thesis by blast
    next
      assume "output_file float e \<noteq> Absent"
      with run_session_file [OF single, of float] d show ?thesis
        by blast
    qed
  qed
next
  assume f: "rm_new e = Inr () \<and>
    (isl (rm_list_resources e) \<or> (\<exists>r. discovered e r \<and> fails_by_read e r))"
  then have new: "rm_new e = Inr ()" by simp
  from f have "isl (rm_list_resources e) \<or> (\<exists>r. discovered e r \<and> fails_by_read e r)"
    by simp
  then have "output_file float e = Absent \<and> filter is_wave_call (calls float e) = [] \<and>
      count_list (calls float e) RmClose = 1 \<and> last (calls float e) = RmClose"
  proof
    assume "isl (rm_list_resources e)"
    then obtain x where "rm_list_resources e = Inl x"
      by (cases "rm_list_resources e") simp_all
    from run_list_fails [OF new this, of float] show ?thesis
      by (simp add: calls_def output_file_def)
  next
    assume "\<exists>r. discovered e r \<and> fails_by_read e r"
    then obtain r rs where "rm_list_resources e = Inr rs"
      "filter (\<lambda>res. py_in ''USB'' res) rs = [r]" "fails_by_read e r"
      by (auto simp: discovered_iff)
    from run_session_fails [OF new this, of float] show ?thesis .
  qed
  then show "output_file float e = Absent" "filter is_wave_call (calls float e) = []"
    "count_list (calls float e) RmClose = 1" "last (calls float e) = RmClose"
    by simp_all
qed

theorem file_only_after_acquisition_witness:
  "output_file float_table (bench [usb_scope] ''1000000.0'' [1, 2, 3]) \<noteq> Absent \<and>
   (\<exists>r reply block. discovered (bench [usb_scope] ''1000000.0'' [1, 2, 3]) r \<and>
      acquisition_returns float_table (bench [usb_scope] ''1000000.0'' [1, 2, 3]) r reply block) \<and>
   rm_new read_times_out = Inr () \<and>
   discovered read_times_out usb_scope \<and> fails_by_read read_times_out usb_scope \<and>
   output_file float_table read_times_out = Absent \<and>
   filter is_wave_call (calls float_table read_times_out) = [] \<and>
   count_list (calls float_table read_times_out) RmClose = 1 \<and>
   last (calls float_table read_times_out) = RmClose"
proof -
  have single: "filter (\<lambda>res. py_in ''USB'' res) [usb_scope] = [usb_scope]"
    by (simp add: usb_scope_def)
  have f: "float_table ''1000000.0'' = Some (Fin 1000000)"
    by (simp add: float_table_def)
  have out: "output_file float_table (bench [usb_scope] ''1000000.0'' [1, 2, 3]) \<noteq> Absent"
    using bench_output
      [where float = float_table and reply = "''1000000.0''" and block = "[1, 2, 3]", OF single f]
    by simp
  have new: "rm_new read_times_out = Inr ()"
    by (simp add: read_times_out_def bench_def)
  have fails: "fails_by_read read_times_out usb_scope"
    by (simp add: fails_by_read_def read_times_out_def bench_def)
  from file_only_after_acquisition [of float_table "bench [usb_scope] ''1000000.0'' [1, 2, 3]"]
    file_only_after_acquisition [of float_table read_times_out]
    out new fails example_discovered(1)
  show ?thesis
    by blast
qed

text \<open>
  C6 (the session is open before it is used, and is closed exactly once whether the run
  succeeds or fails). The second half does not hold: when the binary-block read times
  out, the session has been opened and used, and the script never calls \<^verbatim>\<open>scope.close()\<close>.
\<close>

theorem session_left_open_when_read_times_out:
  "rm_open_resource read_times_out usb_scope = Inr () \<and>
   sessions_opened (calls float_table read_times_out) = [(usb_scope, 20000, 1024000)] \<and>
   commands_sent (calls float_table read_times_out) =
     ['':ACQ:SAMP?'', '':STOP'', '':WAV:POIN:MODE RAW'', '':WAV:DATA? CHAN1''] \<and>
   count_list (calls float_table read_times_out) ScopeClose = 0"
proof -
  have o: "rm_open_resource read_times_out usb_scope = Inr ()"
    and q: "scope_query read_times_out '':ACQ:SAMP?'' = Inr ''1000000.0''"
    and s: "scope_write read_times_out '':STOP'' = Inr ()"
    and m: "scope_write read_times_out '':WAV:POIN:MODE RAW'' = Inr ()"
    and b: "scope_query_binary_values read_times_out '':WAV:DATA? CHAN1'' = Inl VisaIOError"
    by (simp_all add: read_times_out_def bench_def)
  have f: "float_table ''1000000.0'' = Some (Fin 1000000)"
    by (simp add: float_table_def)
  from run_read_fails [where float = float_table, OF example_discovered(1) o q f s m b]
  obtain rs where "run float_table read_times_out =
     (0, \<lparr>trace = [ResourceManager, ListResources, Print (AvailableResources rs),
            Print (Connecting usb_scope), OpenResource usb_scope 20000 1024000,
            Query '':ACQ:SAMP?'', Print (SampleRate (Fin 1000000)), Write '':STOP'',
            Write '':WAV:POIN:MODE RAW'',
            QueryBinaryValues '':WAV:DATA? CHAN1'' ''B'' ''ieee'' False,
            Print (if VisaIOError = VisaIOError then VisaIOErrorMsg else ErrorOccurred), RmClose],
          channel1_wav = Absent, wave_obj = None\<rparr>)"
    by blast
  with o show ?thesis
    by (simp add: calls_def)
qed

text \<open>
  C6, as the code has it. In every run in which the session is opened, the calls respect
  the session discipline (every query, write and binary read comes after the open and
  before any close, and nothing is closed that is not open); the script closes the
  session at most once, and it closes it exactly when the five commands have returned.
\<close>

theorem session_used_while_open_closed_at_most_once:
  assumes "discovered e r"
    and "rm_open_resource e r = Inr ()"
  shows "session_ok False (calls float e) \<and>
         count_list (calls float e) ScopeClose \<le> 1 \<and>
         ((count_list (calls float e) ScopeClose = 1) =
          (\<exists>reply block. commands_return float e reply block))"
proof -
  from assms(1) obtain rs where new: "rm_new e = Inr ()" and list: "rm_list_resources e = Inr rs"
    and single: "filter (\<lambda>res. py_in ''USB'' res) rs = [r]"
    by (auto simp: discovered_iff)
  from run_session_calls [OF new list single, of float] obtain ta ts h where
    c: "calls float e =
          [ResourceManager, ListResources, Print (AvailableResources rs), Print (Connecting r)]
            @ ta @ ts @ h"
    and ok: "session_ok False ta"
    and n: "count_list ta ScopeClose \<le> 1"
    and ts: "filter is_session_call ts = []"
    and h: "h = [RmClose] \<or> h = [Print VisaIOErrorMsg, RmClose] \<or> h = [Print ErrorOccurred, RmClose]"
    by blast
  from h have hq: "filter is_session_call h = []"
    by (elim disjE) simp_all
  with ts have q: "filter is_session_call (ts @ h) = []"
    by simp
  have "session_ok False (ta @ ts @ h)"
    using session_ok_quiet_suffix [OF q, of False ta] ok by simp
  then have 1: "session_ok False (calls float e)"
    unfolding c by simp
  have 2: "count_list (calls float e) ScopeClose \<le> 1"
    unfolding c using n scope_close_quiet [OF ts] scope_close_quiet [OF hq] by simp
  note 3 = run_session_close_count [OF new list single assms(2), of float]
  from 1 2 3 show ?thesis by simp
qed

theorem session_used_while_open_closed_at_most_once_witness:
  "discovered (bench [usb_scope] ''1000000.0'' [1, 2, 3]) usb_scope \<and>
   rm_open_resource (bench [usb_scope] ''1000000.0'' [1, 2, 3]) usb_scope = Inr () \<and>
   commands_return float_table (bench [usb_scope] ''1000000.0'' [1, 2, 3]) ''1000000.0'' [1, 2, 3] \<and>
   session_ok False (calls float_table (bench [usb_scope] ''1000000.0'' [1, 2, 3])) \<and>
   count_list (calls float_table (bench [usb_scope] ''1000000.0'' [1, 2, 3])) ScopeClose = 1 \<and>
   discovered read_times_out usb_scope \<and>
   rm_open_resource read_times_out usb_scope = Inr () \<and>
   session_ok False (calls float_table read_times_out) \<and>
   count_list (calls float_table read_times_out) ScopeClose \<le> 1"
proof -
  have single: "filter (\<lambda>res. py_in ''USB'' res) [usb_scope] = [usb_scope]"
    by (simp add: usb_scope_def)
  note d = bench_discovered [OF single, of "''1000000.0''" "[1, 2, 3]"]
  have o: "rm_open_resource (bench [usb_scope] ''1000000.0'' [1, 2, 3]) usb_scope = Inr ()"
    by (simp add: bench_def)
  have r: "commands_return float_table (bench [usb_scope] ''1000000.0'' [1, 2, 3])
      ''1000000.0'' [1, 2, 3]"
    by (simp add: commands_return_def bench_def float_table_def)
  have o': "rm_open_resource read_times_out usb_scope = Inr ()"
    by (simp add: read_times_out_def bench_def)
  from session_used_while_open_closed_at_most_once [OF d o, of float_table]
    session_used_while_open_closed_at_most_once [OF example_discovered(1) o', of float_table]
    d o r o' example_discovered(1)
  show ?thesis
    by blast
qed

text \<open>
  C7 (exit status -1 exactly when the initialization fails or the USB count is not one;
  every other failure caught, printed, status 0). It does not hold for an initialization
  that fails with an exception other than \<^verbatim>\<open>LibraryError\<close>: line 17 does not catch it,
  nothing is printed by the script and the interpreter ends with status 1.
\<close>

theorem uncaught_initialization_error:
  "rm_new no_backend = Inl OtherException \<and>
   exit_status float_table no_backend = 1 \<and>
   calls float_table no_backend = [ResourceManager]"
proof -
  have n: "rm_new no_backend = Inl OtherException"
    by (simp add: no_backend_def)
  from run_init_other [OF n, of float_table] n show ?thesis
    by (simp add: exit_status_def calls_def)
qed

text \<open>
  C7, as the code has it. The exit status is -1 exactly when the constructor of the
  provider raises \<^verbatim>\<open>LibraryError\<close>, or it returns and the enumeration returns a list whose
  number of USB-matching identifiers is not one. Once the constructor has returned, the
  status is -1 or 0, and every exception raised in the body of the second \<^verbatim>\<open>try\<close> (a bus
  I/O error, a parse failure, an error of the writer) is caught: its message is printed,
  \<^verbatim>\<open>rm.close()\<close> is called and the status is 0. Any other exception of the constructor is
  not caught: status 1.
\<close>

theorem exit_status_cases:
  "(exit_status float e = - 1 \<longleftrightarrow>
      rm_new e = Inl LibraryError \<or>
      (rm_new e = Inr () \<and>
       (\<exists>rs. rm_list_resources e = Inr rs \<and> length (filter (\<lambda>res. py_in ''USB'' res) rs) \<noteq> 1))) \<and>
   (rm_new e = Inr () \<longrightarrow> exit_status float e = - 1 \<or> exit_status float e = 0) \<and>
   (\<forall>x w'. rm_new e = Inr () \<and>
       main_block float e (emit ResourceManager world0) = (Raise x, w') \<longrightarrow>
         exit_status float e = 0 \<and>
         calls float e =
           trace w' @ [Print (if x = VisaIOError then VisaIOErrorMsg else ErrorOccurred), RmClose]) \<and>
   (\<forall>x. rm_new e = Inl x \<and> x \<noteq> LibraryError \<longrightarrow>
       exit_status float e = 1 \<and> calls float e = [ResourceManager])"
proof (intro conjI allI impI)
  show "exit_status float e = - 1 \<longleftrightarrow>
      rm_new e = Inl LibraryError \<or>
      (rm_new e = Inr () \<and>
       (\<exists>rs. rm_list_resources e = Inr rs \<and> length (filter (\<lambda>res. py_in ''USB'' res) rs) \<noteq> 1))"
  proof (cases rule: run_paths [of e])
    case (init_fails x)
    then show ?thesis
      by (cases "x = LibraryError")
        (simp_all add: exit_status_def run_init_library run_init_other)
  next
    case (list_fails x)
    then show ?thesis
      by (simp add: exit_status_def run_list_fails)
  next
    case (ambiguous rs)
    then show ?thesis
      by (simp add: exit_status_def run_ambiguous)
  next
    case (single rs r)
    from run_session_calls [OF single, of float] have "exit_status float e = 0"
      by blast
    with single show ?thesis by simp
  qed
next
  assume new: "rm_new e = Inr ()"
  show "exit_status float e = - 1 \<or> exit_status float e = 0"
  proof (cases rule: run_paths [of e])
    case (init_fails x)
    with new show ?thesis by simp
  next
    case (list_fails x)
    then show ?thesis
      by (simp add: exit_status_def run_list_fails)
  next
    case (ambiguous rs)
    then show ?thesis
      by (simp add: exit_status_def run_ambiguous)
  next
    case (single rs r)
    from run_session_calls [OF single, of float] show ?thesis
      by blast
  qed
next
  fix x w'
  assume "rm_new e = Inr () \<and> main_block float e (emit ResourceManager world0) = (Raise x, w')"
  then have run: "run float e =
      (0, emit RmClose (emit (Print (if x = VisaIOError then VisaIOErrorMsg else ErrorOccurred)) w'))"
    by (simp add: run_started except_finally_simps)
  show "exit_status float e = 0"
    unfolding exit_status_def run by simp
  show "calls float e =
      trace w' @ [Print (if x = VisaIOError then VisaIOErrorMsg else ErrorOccurred), RmClose]"
    unfolding calls_def run by (simp add: trace_emit)
next
  fix x
  assume "rm_new e = Inl x \<and> x \<noteq> LibraryError"
  then have run: "run float e =
      (1, \<lparr>trace = [ResourceManager], channel1_wav = Absent, wave_obj = None\<rparr>)"
    by (simp add: run_init_other)
  show "exit_status float e = 1"
    unfolding exit_status_def run by simp
  show "calls float e = [ResourceManager]"
    unfolding calls_def run by simp
qed


theorem exit_status_cases_witness:
  "rm_new library_missing = Inl LibraryError \<and>
   exit_status float_table library_missing = - 1 \<and>
   rm_new read_times_out = Inr () \<and>
   fst (main_block float_table read_times_out (emit ResourceManager world0)) = Raise VisaIOError \<and>
   exit_status float_table read_times_out = 0 \<and>
   Print VisaIOErrorMsg \<in> set (calls float_table read_times_out) \<and>
   rm_new text_reply = Inr () \<and>
   fst (main_block float_table text_reply (emit ResourceManager world0)) = Raise OtherException \<and>
   exit_status float_table text_reply = 0 \<and>
   Print ErrorOccurred \<in> set (calls float_table text_reply) \<and>
   rm_new no_backend = Inl OtherException \<and>
   exit_status float_table no_backend = 1 \<and>
   calls float_table no_backend = [ResourceManager]"
proof -
  have single: "filter (\<lambda>res. py_in ''USB'' res) [usb_scope] = [usb_scope]"
    by (simp add: usb_scope_def)
  have lib: "rm_new library_missing = Inl LibraryError"
    by (simp add: library_missing_def)
  have nb: "rm_new no_backend = Inl OtherException"
    by (simp add: no_backend_def)
  have new1: "rm_new read_times_out = Inr ()"
    and list1: "rm_list_resources read_times_out = Inr [usb_scope]"
    and o1: "rm_open_resource read_times_out usb_scope = Inr ()"
    and q1: "scope_query read_times_out '':ACQ:SAMP?'' = Inr ''1000000.0''"
    and s1: "scope_write read_times_out '':STOP'' = Inr ()"
    and m1: "scope_write read_times_out '':WAV:POIN:MODE RAW'' = Inr ()"
    and b1: "scope_query_binary_values read_times_out '':WAV:DATA? CHAN1'' = Inl VisaIOError"
    by (simp_all add: read_times_out_def bench_def)
  have f: "float_table ''1000000.0'' = Some (Fin 1000000)"
    by (simp add: float_table_def)
  have new2: "rm_new text_reply = Inr ()"
    and list2: "rm_list_resources text_reply = Inr [usb_scope]"
    and o2: "rm_open_resource text_reply usb_scope = Inr ()"
    and q2: "scope_query text_reply '':ACQ:SAMP?'' = Inr ''no signal''"
    by (simp_all add: text_reply_def bench_def)
  have n: "float_table ''no signal'' = None"
    by (simp add: float_table_def)
  obtain w1 where mb1:
    "main_block float_table read_times_out (emit ResourceManager world0) = (Raise VisaIOError, w1)"
    unfolding main_block_single [OF list1 single]
      session_Raise [OF acquire_read_fails [where float = float_table, OF o1 q1 f s1 m1 b1]]
    by blast
  obtain w2 where mb2:
    "main_block float_table text_reply (emit ResourceManager world0) = (Raise OtherException, w2)"
    unfolding main_block_single [OF list2 single]
      session_Raise [OF acquire_parse_fails [where float = float_table, OF o2 q2 n]]
    by blast
  note t1 = exit_status_cases [of float_table library_missing]
  note t2 = exit_status_cases [of float_table read_times_out]
  note t3 = exit_status_cases [of float_table text_reply]
  note t4 = exit_status_cases [of float_table no_backend]
  from t1 lib have a: "exit_status float_table library_missing = - 1"
    by blast
  from t2 new1 mb1 have b: "exit_status float_table read_times_out = 0"
    "calls float_table read_times_out =
       trace w1 @ [Print (if VisaIOError = VisaIOError then VisaIOErrorMsg else ErrorOccurred), RmClose]"
    by blast+
  from t3 new2 mb2 have c: "exit_status float_table text_reply = 0"
    "calls float_table text_reply =
       trace w2 @ [Print (if OtherException = VisaIOError then VisaIOErrorMsg else ErrorOccurred), RmClose]"
    by blast+
  from t4 nb have d: "exit_status float_table no_backend = 1"
    "calls float_table no_backend = [ResourceManager]"
    by simp_all
  from a b c d lib nb new1 new2 mb1 mb2 show ?thesis
    by simp
qed

end
